theory Spec2Isabelle
  imports Complex_Main "HOL-Library.Word" "HOL-Library.Sublist"
begin

section \<open>JavaScript strings and numbers\<close>

text \<open>
  A JavaScript string is a sequence of UTF-16 code units: \<open>length\<close>, \<open>substring\<close>,
  \<open>===\<close> and \<open>replace\<close> all work on code units. ASCII literals of the source are
  written \<open>js ''...''\<close>; the few non-ASCII literals (icons, arrows) are given by their
  code units.
\<close>

type_synonym jsstring = "16 word list"

definition js :: "string \<Rightarrow> jsstring" where
  "js s = map (\<lambda>c. of_nat (of_char c)) s"

definition pipe :: "16 word" where
  "pipe = 0x7C"

definition newline :: "16 word" where
  "newline = 0x0A"

definition space :: "16 word" where
  "space = 0x20"

definition backslash :: "16 word" where
  "backslash = 0x5C"

definition slash :: "16 word" where
  "slash = 0x2F"

text \<open>The icons of the source, which the files hold as UTF-8 bytes: U+274C, U+26A0 U+FE0F,
  U+2705, U+1F534, U+1F4A1, U+2192, U+1F389, U+2550, U+1F4CA, U+1F4D6.\<close>

definition crossMark :: jsstring where
  "crossMark = [0x274C]"

definition warningSign :: jsstring where
  "warningSign = [0x26A0, 0xFE0F]"

definition checkMark :: jsstring where
  "checkMark = [0x2705]"

definition redCircle :: jsstring where
  "redCircle = [0xD83D, 0xDD34]"

definition lightBulb :: jsstring where
  "lightBulb = [0xD83D, 0xDCA1]"

definition rightArrow :: jsstring where
  "rightArrow = [0x2192]"

definition partyPopper :: jsstring where
  "partyPopper = [0xD83C, 0xDF89]"

definition doubleBar :: "16 word" where
  "doubleBar = 0x2550"

definition barChart :: jsstring where
  "barChart = [0xD83D, 0xDCCA]"

definition openBook :: jsstring where
  "openBook = [0xD83D, 0xDCD6]"

text \<open>Template-literal rendering of an integer-valued number: decimal digits, with a
  leading minus sign for a negative value (JavaScript switches to exponent notation from
  \<open>10^21\<close> on, far beyond any count or line number).\<close>

fun digits :: "nat \<Rightarrow> jsstring" where
  "digits n = (if n < 10 then [of_nat (48 + n)] else digits (n div 10) @ [of_nat (48 + n mod 10)])"

declare digits.simps [simp del]

definition showInt :: "int \<Rightarrow> jsstring" where
  "showInt i = (if i < 0 then js ''-'' @ digits (nat (- i)) else digits (nat i))"

text \<open>Truthiness of an optional string (\<open>if (v.suggestion)\<close>): absent and empty are falsy.\<close>

definition truthyStr :: "jsstring option \<Rightarrow> bool" where
  "truthyStr s = (case s of None \<Rightarrow> False | Some t \<Rightarrow> t \<noteq> [])"

text \<open>An optional string inside a template literal: \<open>undefined\<close> is rendered by name.\<close>

definition strOpt :: "jsstring option \<Rightarrow> jsstring" where
  "strOpt s = (case s of None \<Rightarrow> js ''undefined'' | Some t \<Rightarrow> t)"

text \<open>\<open>s.includes(t)\<close>: \<open>t\<close> occurs in \<open>s\<close> as a contiguous run of code units.\<close>

fun includesStr :: "jsstring \<Rightarrow> jsstring \<Rightarrow> bool" where
  "includesStr [] t = (t = [])"
| "includesStr (c # s) t = (prefix t (c # s) \<or> includesStr s t)"

text \<open>\<open>s.toLowerCase()\<close> on the ASCII letters. The built-in also lowers letters outside
  ASCII, but none of them becomes a letter of \<open>error\<close> or \<open>warning\<close>, the only strings
  the source compares the result with.\<close>

definition toLowerCase :: "jsstring \<Rightarrow> jsstring" where
  "toLowerCase s = map (\<lambda>c. if 0x41 \<le> c \<and> c \<le> 0x5A then c + 0x20 else c) s"

section \<open>The analysis result (run.ts, github.ts)\<close>

record ModularGuardSummary =
  totalModules :: int
  totalProjects :: int
  errorCount :: int
  warningCount :: int
  isValid :: bool

text \<open>The fields of a project carry a prefix: \<open>filePath\<close> is also a field of a violation.\<close>

record ModularGuardProject =
  proj_name :: jsstring
  proj_type :: jsstring
  proj_filePath :: jsstring
  proj_references :: "jsstring list"

record ModularGuardModule =
  moduleName :: jsstring
  projects :: "ModularGuardProject list"

record ModularGuardViolation =
  severity :: jsstring
  projectName :: jsstring
  invalidReference :: jsstring
  ruleName :: jsstring
  description :: jsstring
  suggestion :: "jsstring option"
  documentationUrl :: "jsstring option"
  filePath :: jsstring
  lineNumber :: int
  columnNumber :: int

record ModularGuardResult =
  summary :: ModularGuardSummary
  modules :: "ModularGuardModule list"
  violations :: "ModularGuardViolation list"

section \<open>Path normalisation (github.ts, toWorkspaceRelativePath)\<close>

text \<open>\<open>path.relative\<close> belongs to the Node library and depends on the platform and on the
  working directory of the process; it is a parameter. Its arguments are in the library's
  order: \<open>relative from to\<close>.\<close>

definition toWorkspaceRelativePath ::
  "(jsstring \<Rightarrow> jsstring \<Rightarrow> jsstring) \<Rightarrow> jsstring \<Rightarrow> jsstring \<Rightarrow> jsstring" where
  "toWorkspaceRelativePath relative absolutePath workspaceRoot =
     (let relativePath = relative workspaceRoot absolutePath
      in map (\<lambda>c. if c = backslash then slash else c) relativePath)"

section \<open>The markdown comment (github.ts, formatComment)\<close>

definition marker :: jsstring where
  "marker = js ''<!-- modularguard-results -->''"

definition severityIcon :: "jsstring \<Rightarrow> jsstring" where
  "severityIcon sev = (if sev = js ''Error'' then redCircle else warningSign)"

definition fileLocation :: "ModularGuardViolation \<Rightarrow> jsstring" where
  "fileLocation violation = js ''`'' @ filePath violation @ js '':'' @ showInt (lineNumber violation) @ js ''`''"

definition descriptionCell :: "ModularGuardViolation \<Rightarrow> jsstring" where
  "descriptionCell violation =
     take 100 (map (\<lambda>c. if c = newline then space else c) (description violation))"

text \<open>One pass of the loop over the violations: the table row appended to the markdown.\<close>

definition violationRow :: "ModularGuardViolation \<Rightarrow> jsstring" where
  "violationRow violation =
     js ''| '' @ severityIcon (severity violation) @ js '' '' @ severity violation
     @ js '' | '' @ fileLocation violation
     @ js '' | '' @ projectName violation
     @ js '' | '' @ invalidReference violation
     @ js '' | '' @ descriptionCell violation @ js '' |\<newline>''"

text \<open>One pass of the loop over the violations that carry a suggestion.\<close>

definition suggestionEntry :: "ModularGuardViolation \<Rightarrow> jsstring" where
  "suggestionEntry violation =
     js ''**'' @ projectName violation @ js '' '' @ rightArrow @ js '' '' @ invalidReference violation
     @ js ''**\<newline>''
     @ strOpt (suggestion violation) @ js ''\<newline>\<newline>''"

definition statusBadge :: "bool \<Rightarrow> bool \<Rightarrow> jsstring" where
  "statusBadge hasErrors hasWarnings =
     (if hasErrors then crossMark @ js '' **Analysis Failed**\<newline>\<newline>''
      else if hasWarnings then warningSign @ js '' **Analysis Passed with Warnings**\<newline>\<newline>''
      else checkMark @ js '' **Analysis Passed**\<newline>\<newline>'')"

definition formatComment :: "ModularGuardResult \<Rightarrow> jsstring option \<Rightarrow> jsstring" where
  "formatComment result runUrl =
     (let hasErrors = errorCount (summary result) > 0;
          hasWarnings = warningCount (summary result) > 0;
          markdown = marker @ js ''\<newline>\<newline>'';
          markdown = markdown @ js ''## ModularGuard Analysis Results\<newline>\<newline>'';
          markdown = markdown @ statusBadge hasErrors hasWarnings;
          markdown = markdown @ js ''### Summary\<newline>\<newline>'';
          markdown = markdown @ js ''- **Total Modules:** '' @ showInt (totalModules (summary result)) @ js ''\<newline>'';
          markdown = markdown @ js ''- **Total Projects:** '' @ showInt (totalProjects (summary result)) @ js ''\<newline>'';
          markdown = markdown @ js ''- **Errors:** '' @ showInt (errorCount (summary result)) @ js ''\<newline>'';
          markdown = markdown @ js ''- **Warnings:** '' @ showInt (warningCount (summary result)) @ js ''\<newline>\<newline>'';
          markdown =
            (if length (violations result) > 0 then
               (let markdown = markdown @ js ''### Violations\<newline>\<newline>'';
                    markdown = markdown @ js ''| Severity | File:Line | Project | Invalid Reference | Description |\<newline>'';
                    markdown = markdown @ js ''|----------|-----------|---------|-------------------|-------------|\<newline>'';
                    markdown = markdown @ concat (map violationRow (violations result));
                    markdown = markdown @ js ''\<newline>'';
                    violationsWithSuggestions = filter (\<lambda>v. truthyStr (suggestion v)) (violations result)
                in if length violationsWithSuggestions > 0 then
                     markdown @ js ''<details>\<newline><summary>'' @ lightBulb @ js '' Suggestions</summary>\<newline>\<newline>''
                     @ concat (map suggestionEntry violationsWithSuggestions)
                     @ js ''</details>\<newline>\<newline>''
                   else markdown)
             else markdown)
      in if truthyStr runUrl then
           markdown @ js ''---\<newline>\<newline>[View detailed results]('' @ strOpt runUrl @ js '')\<newline>''
         else markdown)"

section \<open>The check run (github.ts, createCheckRun, mapSeverityToLevel)\<close>

datatype annotation_level = Failure | Warning | Notice

definition mapSeverityToLevel :: "jsstring \<Rightarrow> annotation_level" where
  "mapSeverityToLevel sev =
     (if toLowerCase sev = js ''error'' then Failure
      else if toLowerCase sev = js ''warning'' then Warning
      else Notice)"

record Annotation =
  path :: jsstring
  start_line :: int
  end_line :: int
  start_column :: int
  end_column :: int
  annotation_level :: annotation_level
  message :: jsstring
  title :: jsstring

text \<open>The argument of \<open>octokit.rest.checks.create\<close>; the two fields of \<open>output\<close> that
  clash with other names carry the prefix \<open>output_\<close>.\<close>

record CheckRun =
  cr_owner :: jsstring
  cr_repo :: jsstring
  cr_name :: jsstring
  head_sha :: jsstring
  status :: jsstring
  conclusion :: jsstring
  output_title :: jsstring
  output_summary :: jsstring
  annotations :: "Annotation list"

definition toAnnotation :: "ModularGuardViolation \<Rightarrow> Annotation" where
  "toAnnotation violation =
     \<lparr> path = filePath violation,
       start_line = lineNumber violation,
       end_line = lineNumber violation,
       start_column = columnNumber violation,
       end_column = columnNumber violation,
       annotation_level = mapSeverityToLevel (severity violation),
       message = description violation,
       title = ruleName violation @ js '': '' @ projectName violation @ js '' '' @ rightArrow @ js '' ''
               @ invalidReference violation \<rparr>"

text \<open>The summary text of the check run as it stands before the note on omitted
  annotations is appended (the first half of \<open>createCheckRun\<close>).\<close>

definition summaryTextBase :: "ModularGuardResult \<Rightarrow> jsstring" where
  "summaryTextBase result =
     (let summaryText = js ''## ModularGuard Analysis\<newline>\<newline>'';
          summaryText = summaryText @ js ''**Total Modules:** '' @ showInt (totalModules (summary result)) @ js ''\<newline>'';
          summaryText = summaryText @ js ''**Total Projects:** '' @ showInt (totalProjects (summary result)) @ js ''\<newline>'';
          summaryText = summaryText @ js ''**Errors:** '' @ showInt (errorCount (summary result)) @ js ''\<newline>'';
          summaryText = summaryText @ js ''**Warnings:** '' @ showInt (warningCount (summary result)) @ js ''\<newline>\<newline>''
      in if length (violations result) > 0 then
           summaryText @ js ''Found '' @ showInt (int (length (violations result))) @ js '' violation(s).\<newline>\<newline>''
           @ js ''See annotations on the Files Changed tab for details.''
         else summaryText @ js ''No violations found! '' @ partyPopper)"

text \<open>Everything \<open>createCheckRun\<close> computes before the API call: the request it sends.\<close>

definition checkRunRequest :: "jsstring \<Rightarrow> jsstring \<Rightarrow> jsstring \<Rightarrow> ModularGuardResult \<Rightarrow> CheckRun" where
  "checkRunRequest owner repo headSha result =
     (let conclusion = (if errorCount (summary result) > 0 then js ''failure'' else js ''success'');
          summaryText = js ''## ModularGuard Analysis\<newline>\<newline>'';
          summaryText = summaryText @ js ''**Total Modules:** '' @ showInt (totalModules (summary result)) @ js ''\<newline>'';
          summaryText = summaryText @ js ''**Total Projects:** '' @ showInt (totalProjects (summary result)) @ js ''\<newline>'';
          summaryText = summaryText @ js ''**Errors:** '' @ showInt (errorCount (summary result)) @ js ''\<newline>'';
          summaryText = summaryText @ js ''**Warnings:** '' @ showInt (warningCount (summary result)) @ js ''\<newline>\<newline>'';
          summaryText =
            (if length (violations result) > 0 then
               summaryText @ js ''Found '' @ showInt (int (length (violations result))) @ js '' violation(s).\<newline>\<newline>''
               @ js ''See annotations on the Files Changed tab for details.''
             else summaryText @ js ''No violations found! '' @ partyPopper);
          annotations = map toAnnotation (take 50 (violations result));
          summaryText =
            (if length (violations result) > 50 then
               summaryText @ js ''\<newline>\<newline>'' @ warningSign @ js '' Note: Only showing the first 50 annotations. ''
               @ showInt (int (length (violations result)) - 50) @ js '' additional violation(s) not shown.''
             else summaryText)
      in \<lparr> cr_owner = owner, cr_repo = repo, cr_name = js ''ModularGuard'', head_sha = headSha,
           status = js ''completed'', conclusion = conclusion,
           output_title = js ''ModularGuard Analysis'', output_summary = summaryText,
           annotations = annotations \<rparr>)"

section \<open>Effects: log, workflow commands, API calls and exceptions\<close>

text \<open>
  Every observable effect of the action is an event; an asynchronous function of the
  source becomes an action: the events it produced, in order, and either the value it
  returned (\<open>Inr\<close>) or the error it threw (\<open>Inl\<close>). A thrown error is represented by
  its message, which is all the source ever reads of it.
\<close>

datatype event =
    CoreInfo jsstring
  | CoreDebug jsstring
  | CoreWarning jsstring
  | CoreError jsstring
  | CoreSetOutput jsstring jsstring
  | CoreSetFailed jsstring
  | ConsoleError jsstring
  | ListPullRequestsAssociatedWithCommit jsstring jsstring jsstring
  | DownloadModularGuard jsstring
  | ExecuteModularGuard jsstring jsstring "jsstring option"
  | ExecBinary jsstring "jsstring list"
  | ChecksCreate CheckRun
  | IssuesListComments jsstring jsstring int
  | IssuesUpdateComment jsstring jsstring int jsstring
  | IssuesCreateComment jsstring jsstring int jsstring

type_synonym 'a action = "event list \<times> (jsstring + 'a)"

definition succeed :: "'a \<Rightarrow> 'a action" where
  "succeed x = ([], Inr x)"

definition throw :: "jsstring \<Rightarrow> 'a action" where
  "throw msg = ([], Inl msg)"

definition emit :: "event \<Rightarrow> unit action" where
  "emit e = ([e], Inr ())"

definition emitAll :: "event list \<Rightarrow> unit action" where
  "emitAll es = (es, Inr ())"

text \<open>A call that leaves the program: the request is logged as an event and the outcome
  is whatever the outside world answers.\<close>

definition external :: "event \<Rightarrow> jsstring + 'a \<Rightarrow> 'a action" where
  "external request response = ([request], response)"

text \<open>\<open>await m\<close> followed by the rest of the function: an error ends the function.\<close>

definition andThen :: "'a action \<Rightarrow> ('a \<Rightarrow> 'b action) \<Rightarrow> 'b action" where
  "andThen m f =
     (case m of
        (t, Inl e) \<Rightarrow> (t, Inl e)
      | (t, Inr x) \<Rightarrow> (case f x of (t', r) \<Rightarrow> (t @ t', r)))"

definition seq :: "unit action \<Rightarrow> 'b action \<Rightarrow> 'b action" where
  "seq m k = andThen m (\<lambda>_. k)"

text \<open>\<open>try { m } catch (error) { h error }\<close>.\<close>

definition tryCatch :: "'a action \<Rightarrow> (jsstring \<Rightarrow> 'a action) \<Rightarrow> 'a action" where
  "tryCatch m h =
     (case m of
        (t, Inl e) \<Rightarrow> (case h e of (t', r) \<Rightarrow> (t @ t', r))
      | (t, Inr x) \<Rightarrow> (t, Inr x))"

text \<open>\<open>for (const x of xs) { await f x }\<close>.\<close>

fun forEach :: "('a \<Rightarrow> unit action) \<Rightarrow> 'a list \<Rightarrow> unit action" where
  "forEach f [] = succeed ()"
| "forEach f (x # xs) = andThen (f x) (\<lambda>_. forEach f xs)"

record PullRequest =
  number :: int
  html_url :: jsstring

record IssueComment =
  comment_id :: int
  comment_body :: "jsstring option"

text \<open>
  The outside world of one run: what each external call answers. \<open>analysis\<close> is the
  outcome of \<open>executeModularGuard\<close> seen through its declared return type (the source
  casts the parsed JSON without a check); the function itself is embedded on the untyped
  JSON value in the section on execution. \<open>pathRelative\<close> is Node's \<open>path.relative\<close>.
\<close>

record World =
  pullsOfCommit :: "jsstring + PullRequest list"
  download :: "jsstring + jsstring"
  analysis :: "jsstring + ModularGuardResult"
  checksCreate :: "CheckRun \<Rightarrow> jsstring + unit"
  listComments :: "int \<Rightarrow> jsstring + IssueComment list"
  updateComment :: "int \<Rightarrow> jsstring \<Rightarrow> jsstring + unit"
  createComment :: "int \<Rightarrow> jsstring \<Rightarrow> jsstring + unit"
  pathRelative :: "jsstring \<Rightarrow> jsstring \<Rightarrow> jsstring"

section \<open>Publication (github.ts)\<close>

definition findExistingComment :: "World \<Rightarrow> jsstring \<Rightarrow> jsstring \<Rightarrow> int \<Rightarrow> int option action" where
  "findExistingComment w owner repo issueNumber =
     tryCatch
       (andThen (external (IssuesListComments owner repo issueNumber) (listComments w issueNumber))
          (\<lambda>comments.
             let existing = find (\<lambda>comment. case comment_body comment of
                                               None \<Rightarrow> False
                                             | Some b \<Rightarrow> includesStr b marker) comments
             in succeed (map_option comment_id existing)))
       (\<lambda>error.
          seq (emit (CoreWarning (js ''Failed to find existing comment: '' @ error)))
              (succeed None))"

text \<open>\<open>if (existingCommentId)\<close>: an absent id and the id 0 are falsy.\<close>

definition createOrUpdateComment ::
  "World \<Rightarrow> jsstring \<Rightarrow> jsstring \<Rightarrow> int \<Rightarrow> jsstring \<Rightarrow> int option \<Rightarrow> unit action" where
  "createOrUpdateComment w owner repo issueNumber body existingCommentId =
     (let create = external (IssuesCreateComment owner repo issueNumber body)
                            (createComment w issueNumber body)
      in case existingCommentId of
           Some cid \<Rightarrow>
             if cid \<noteq> 0 then
               tryCatch (external (IssuesUpdateComment owner repo cid body) (updateComment w cid body))
                        (\<lambda>error. throw (js ''Failed to update comment: '' @ error))
             else tryCatch create (\<lambda>error. throw (js ''Failed to create comment: '' @ error))
         | None \<Rightarrow> tryCatch create (\<lambda>error. throw (js ''Failed to create comment: '' @ error)))"

definition createCheckRun ::
  "World \<Rightarrow> jsstring \<Rightarrow> jsstring \<Rightarrow> jsstring \<Rightarrow> ModularGuardResult \<Rightarrow> unit action" where
  "createCheckRun w owner repo headSha result =
     (let request = checkRunRequest owner repo headSha result
      in tryCatch (external (ChecksCreate request) (checksCreate w request))
                  (\<lambda>error. throw (js ''Failed to create check run: '' @ error)))"

section \<open>Execution of the analyser (run.ts, executeModularGuard)\<close>

text \<open>
  What \<open>JSON.parse\<close> returns is a dynamically typed value. A number is a rational here
  (only whether it is zero matters below); an object is the list of its members in
  document order.
\<close>

datatype json =
    JNull
  | JBool bool
  | JNumber rat
  | JString jsstring
  | JArray "json list"
  | JObject "(jsstring \<times> json) list"

text \<open>Reading a property of a parsed value that is not \<open>null\<close>: \<open>None\<close> is \<open>undefined\<close>.
  Of a repeated member the last one counts; a value that is not an object has none of the
  three properties the source reads.\<close>

fun getProp :: "json \<Rightarrow> jsstring \<Rightarrow> json option" where
  "getProp (JObject members) k = map_of (rev members) k"
| "getProp _ k = None"

fun truthy :: "json option \<Rightarrow> bool" where
  "truthy None = False"
| "truthy (Some JNull) = False"
| "truthy (Some (JBool b)) = b"
| "truthy (Some (JNumber n)) = (n \<noteq> 0)"
| "truthy (Some (JString s)) = (s \<noteq> [])"
| "truthy (Some (JArray _)) = True"
| "truthy (Some (JObject _)) = True"

definition apostrophe :: jsstring where
  "apostrophe = [0x27]"

text \<open>The structure check on the parsed value; reading a property of \<open>null\<close> throws a
  TypeError (the message is the one of V8).\<close>

definition validateStructure :: "json \<Rightarrow> json action" where
  "validateStructure result =
     (case result of
        JNull \<Rightarrow>
          throw (js ''Cannot read properties of null (reading '' @ apostrophe @ js ''summary''
                 @ apostrophe @ js '')'')
      | _ \<Rightarrow>
          if \<not> truthy (getProp result (js ''summary'')) \<or> \<not> truthy (getProp result (js ''modules''))
             \<or> \<not> truthy (getProp result (js ''violations''))
          then throw (js ''Invalid ModularGuard output: missing required fields'')
          else succeed result)"

text \<open>
  \<open>jsonParse\<close> is the built-in \<open>JSON.parse\<close> (\<open>Inl\<close> the message of its SyntaxError);
  \<open>execOutcome\<close> is what \<open>exec.exec\<close> does with \<open>ignoreReturnCode\<close>: it throws, or it
  gives the exit code with the collected stdout and stderr.
\<close>

definition executeModularGuard ::
  "(jsstring \<Rightarrow> jsstring + json) \<Rightarrow> (jsstring + int \<times> jsstring \<times> jsstring) \<Rightarrow>
   jsstring \<Rightarrow> jsstring \<Rightarrow> jsstring option \<Rightarrow> json action" where
  "executeModularGuard jsonParse execOutcome binaryPath directory configPath =
     (let args = [js ''check'', directory, js ''--format'', js ''json'', js ''--quiet''];
          args = (if truthyStr configPath then args @ [js ''--config'', strOpt configPath] else args)
      in andThen
           (tryCatch
              (andThen (external (ExecBinary binaryPath args) execOutcome)
                 (\<lambda>(exitCode, stdout, stderr).
                    seq (emit (CoreDebug (js ''ModularGuard exit code: '' @ showInt exitCode)))
                   (seq (if stderr \<noteq> [] then emit (CoreDebug (js ''ModularGuard stderr: '' @ stderr))
                         else succeed ())
                        (succeed (stdout, stderr)))))
              (\<lambda>error. throw (js ''Failed to execute ModularGuard: '' @ error)))
           (\<lambda>(stdout, stderr).
              if stdout = [] then throw (js ''ModularGuard produced no output'')
              else
                tryCatch
                  (andThen ([], jsonParse stdout) validateStructure)
                  (\<lambda>error.
                     seq (emit (CoreError (js ''Failed to parse ModularGuard output'')))
                    (seq (emit (CoreError (js ''stdout: '' @ stdout)))
                    (seq (emit (CoreError (js ''stderr: '' @ stderr)))
                         (throw (js ''Failed to parse ModularGuard output: '' @ error)))))))"

section \<open>The orchestrator (run.ts, index.ts)\<close>

record Inputs =
  directory :: jsstring
  token :: jsstring
  modularguardVersion :: jsstring
  configPath :: "jsstring option"

record Context =
  owner :: jsstring
  repo :: jsstring
  sha :: jsstring

text \<open>The process environment the orchestrator reads.\<close>

record ProcessEnv =
  GITHUB_WORKSPACE :: "jsstring option"
  GITHUB_SERVER_URL :: "jsstring option"
  GITHUB_REPOSITORY :: "jsstring option"
  GITHUB_RUN_ID :: "jsstring option"
  cwd :: jsstring

definition printViolation :: "nat \<times> ModularGuardViolation \<Rightarrow> event list" where
  "printViolation iv =
     (case iv of (i, v) \<Rightarrow>
        (let icon = (if severity v = js ''Error'' then redCircle else warningSign)
         in [CoreInfo (showInt (int i + 1) @ js ''. '' @ icon @ js '' '' @ severity v @ js '': '' @ ruleName v),
             CoreInfo (js ''   Project:    '' @ projectName v),
             CoreInfo (js ''   Reference:  '' @ invalidReference v),
             CoreInfo (js ''   Location:   '' @ filePath v @ js '':'' @ showInt (lineNumber v) @ js '':''
                       @ showInt (columnNumber v)),
             CoreInfo (js ''   Message:    '' @ description v)]
            @ (if truthyStr (suggestion v)
               then [CoreInfo (js ''   '' @ lightBulb @ js '' Suggestion: '' @ strOpt (suggestion v))] else [])
            @ (if truthyStr (documentationUrl v)
               then [CoreInfo (js ''   '' @ openBook @ js '' Documentation: '' @ strOpt (documentationUrl v))] else [])
            @ [CoreInfo []]))"

definition printViolationsToConsole :: "ModularGuardResult \<Rightarrow> unit action" where
  "printViolationsToConsole result =
     seq (emitAll
            [CoreInfo [],
             CoreInfo (replicate 80 doubleBar),
             CoreInfo (barChart @ js '' MODULARGUARD ANALYSIS RESULTS''),
             CoreInfo (replicate 80 doubleBar),
             CoreInfo [],
             CoreInfo (js ''Total Modules:  '' @ showInt (totalModules (summary result))),
             CoreInfo (js ''Total Projects: '' @ showInt (totalProjects (summary result))),
             CoreInfo (js ''Errors:         '' @ showInt (errorCount (summary result))),
             CoreInfo (js ''Warnings:       '' @ showInt (warningCount (summary result))),
             CoreInfo (js ''Status:         ''
                       @ (if isValid (summary result) then checkMark @ js '' Valid''
                          else crossMark @ js '' Invalid'')),
             CoreInfo []])
       (if length (violations result) = 0 then
          emitAll [CoreInfo (checkMark @ js '' No violations found!''), CoreInfo (replicate 80 doubleBar)]
        else
          seq (emitAll
                 [CoreInfo (js ''Found '' @ showInt (int (length (violations result))) @ js '' violation(s):''),
                  CoreInfo []])
         (seq (emitAll (concat (map printViolation (enumerate 0 (violations result)))))
              (emit (CoreInfo (replicate 80 doubleBar)))))"

definition workspaceRootOf :: "ProcessEnv \<Rightarrow> jsstring" where
  "workspaceRootOf env = (if truthyStr (GITHUB_WORKSPACE env) then strOpt (GITHUB_WORKSPACE env) else cwd env)"

definition runUrlOf :: "ProcessEnv \<Rightarrow> jsstring" where
  "runUrlOf env =
     strOpt (GITHUB_SERVER_URL env) @ js ''/'' @ strOpt (GITHUB_REPOSITORY env) @ js ''/actions/runs/''
     @ strOpt (GITHUB_RUN_ID env)"

definition withRelativePaths :: "World \<Rightarrow> jsstring \<Rightarrow> ModularGuardResult \<Rightarrow> ModularGuardResult" where
  "withRelativePaths w workspaceRoot result =
     result \<lparr> violations :=
       map (\<lambda>v. v \<lparr> filePath := toWorkspaceRelativePath (pathRelative w) (filePath v) workspaceRoot \<rparr>)
           (violations result) \<rparr>"

text \<open>The body of the loop over the associated pull requests.\<close>

definition postComment ::
  "World \<Rightarrow> Context \<Rightarrow> ModularGuardResult \<Rightarrow> jsstring \<Rightarrow> PullRequest \<Rightarrow> unit action" where
  "postComment w context resultWithRelativePaths runUrl pull =
     andThen (findExistingComment w (owner context) (repo context) (number pull))
       (\<lambda>existingComment.
          let commentBody = formatComment resultWithRelativePaths (Some runUrl)
          in seq (createOrUpdateComment w (owner context) (repo context) (number pull) commentBody
                    existingComment)
                 (emit (CoreInfo (js ''Comment ''
                          @ (if existingComment \<noteq> None then js ''updated'' else js ''created'')
                          @ js '' on PR #'' @ showInt (number pull)))))"

definition setOutputs :: "ModularGuardResult \<Rightarrow> unit action" where
  "setOutputs result =
     emitAll
       [CoreSetOutput (js ''violations-count'') (showInt (int (length (violations result)))),
        CoreSetOutput (js ''error-count'') (showInt (errorCount (summary result))),
        CoreSetOutput (js ''warning-count'') (showInt (warningCount (summary result))),
        CoreSetOutput (js ''status'')
          (if errorCount (summary result) > 0 then js ''failure'' else js ''success'')]"

definition analysisLog :: "ModularGuardResult \<Rightarrow> unit action" where
  "analysisLog result =
     emitAll
       [CoreInfo (js ''Analysis complete:''),
        CoreInfo (js ''  Total modules: '' @ showInt (totalModules (summary result))),
        CoreInfo (js ''  Total projects: '' @ showInt (totalProjects (summary result))),
        CoreInfo (js ''  Errors: '' @ showInt (errorCount (summary result))),
        CoreInfo (js ''  Warnings: '' @ showInt (warningCount (summary result)))]"

text \<open>\<open>run\<close> as run.ts defines it last: the analysis also runs without a pull request, and
  any violation fails the run.\<close>

definition run :: "Inputs \<Rightarrow> World \<Rightarrow> Context \<Rightarrow> ProcessEnv \<Rightarrow> unit action" where
  "run inputs w context env =
     (let workspaceRoot = workspaceRootOf env;
          runUrl = runUrlOf env
      in
      seq (emit (CoreInfo (js ''Finding associated pull requests...'')))
     (andThen (external (ListPullRequestsAssociatedWithCommit (owner context) (repo context) (sha context))
                        (pullsOfCommit w))
        (\<lambda>pulls.
      let isInPRContext = length pulls > 0 in
      seq (if isInPRContext then
             emitAll (map (\<lambda>pull. CoreInfo (js ''Associated pull request: '' @ html_url pull)) pulls)
           else emit (CoreInfo (js ''No associated pull requests found. Running analysis in non-PR mode.'')))
     (seq (emit (CoreInfo (js ''Downloading ModularGuard binary...'')))
     (andThen (external (DownloadModularGuard (modularguardVersion inputs)) (download w))
        (\<lambda>binaryPath.
      seq (emit (CoreInfo (js ''Binary downloaded to: '' @ binaryPath)))
     (seq (emit (CoreInfo (js ''Executing ModularGuard analysis...'')))
     (andThen (external (ExecuteModularGuard binaryPath (directory inputs) (configPath inputs)) (analysis w))
        (\<lambda>result.
      seq (analysisLog result)
     (let resultWithRelativePaths = withRelativePaths w workspaceRoot result in
      seq (printViolationsToConsole resultWithRelativePaths)
     (seq (if isInPRContext then
             seq (emit (CoreInfo (js ''Creating check run with annotations...'')))
            (seq (createCheckRun w (owner context) (repo context) (sha context) resultWithRelativePaths)
            (seq (emit (CoreInfo (js ''Posting results to pull request(s)...'')))
                 (forEach (postComment w context resultWithRelativePaths runUrl) pulls)))
           else emit (CoreInfo (js ''Skipping PR comments and check runs (not in PR context)'')))
     (seq (setOutputs result)
          (if length (violations result) > 0 then
             (let errorCount = errorCount (summary result);
                  warningCount = warningCount (summary result);
                  message = js ''ModularGuard analysis found '' @ showInt (int (length (violations result)))
                            @ js '' violation(s): '' @ showInt errorCount @ js '' error(s) and ''
                            @ showInt warningCount @ js '' warning(s)''
              in emit (CoreSetFailed message))
           else emit (CoreInfo (checkMark @ js '' No violations found!'')))))))))))))))"

text \<open>\<open>run\<close> as run.ts defines it first (PR-only mode): without a pull request nothing is
  analysed, and only errors fail the run.\<close>

definition run_pr_only :: "Inputs \<Rightarrow> World \<Rightarrow> Context \<Rightarrow> ProcessEnv \<Rightarrow> unit action" where
  "run_pr_only inputs w context env =
     (let workspaceRoot = workspaceRootOf env;
          runUrl = runUrlOf env
      in
      seq (emit (CoreInfo (js ''Finding associated pull requests...'')))
     (andThen (external (ListPullRequestsAssociatedWithCommit (owner context) (repo context) (sha context))
                        (pullsOfCommit w))
        (\<lambda>pulls.
      if length pulls = 0 then
        emit (CoreInfo (js ''No associated pull requests found. Skipping analysis (PR-only mode).''))
      else
      seq (emitAll (map (\<lambda>pull. CoreInfo (js ''Associated pull request: '' @ html_url pull)) pulls))
     (seq (emit (CoreInfo (js ''Downloading ModularGuard binary...'')))
     (andThen (external (DownloadModularGuard (modularguardVersion inputs)) (download w))
        (\<lambda>binaryPath.
      seq (emit (CoreInfo (js ''Binary downloaded to: '' @ binaryPath)))
     (seq (emit (CoreInfo (js ''Executing ModularGuard analysis...'')))
     (andThen (external (ExecuteModularGuard binaryPath (directory inputs) (configPath inputs)) (analysis w))
        (\<lambda>result.
      seq (analysisLog result)
     (let resultWithRelativePaths = withRelativePaths w workspaceRoot result in
      seq (emit (CoreInfo (js ''Creating check run with annotations...'')))
     (seq (createCheckRun w (owner context) (repo context) (sha context) resultWithRelativePaths)
     (seq (emit (CoreInfo (js ''Posting results to pull request(s)...'')))
     (seq (forEach (postComment w context resultWithRelativePaths runUrl) pulls)
     (seq (setOutputs result)
          (if errorCount (summary result) > 0 then
             emit (CoreSetFailed (js ''ModularGuard analysis failed: found ''
                     @ showInt (errorCount (summary result)) @ js '' error(s) and ''
                     @ showInt (warningCount (summary result)) @ js '' warning(s)''))
           else succeed ())))))))))))))))"

text \<open>index.ts: whatever \<open>run\<close> throws marks the run failed. The inputs and the context are
  read before; their own failures are the error \<open>Inl\<close> of \<open>setup\<close>.\<close>

definition main :: "(jsstring + Inputs \<times> Context) \<Rightarrow> World \<Rightarrow> ProcessEnv \<Rightarrow> unit action" where
  "main setup w env =
     tryCatch
       (andThen ([], setup) (\<lambda>(inputs, context). run inputs w context env))
       (\<lambda>e. seq (emit (CoreSetFailed e)) (emit (ConsoleError e)))"

section \<open>Observations on a trace\<close>

text \<open>The messages the run was marked failed with, in order.\<close>

fun failureOf :: "event \<Rightarrow> jsstring option" where
  "failureOf (CoreSetFailed m) = Some m"
| "failureOf _ = None"

definition failureMessages :: "event list \<Rightarrow> jsstring list" where
  "failureMessages t = List.map_filter failureOf t"

text \<open>The values given to the workflow output of a name.\<close>

fun outputOf :: "jsstring \<Rightarrow> event \<Rightarrow> jsstring option" where
  "outputOf k (CoreSetOutput k' v) = (if k' = k then Some v else None)"
| "outputOf k _ = None"

definition outputsNamed :: "jsstring \<Rightarrow> event list \<Rightarrow> jsstring list" where
  "outputsNamed k t = List.map_filter (outputOf k) t"

text \<open>The check runs created.\<close>

fun checkRunOf :: "event \<Rightarrow> CheckRun option" where
  "checkRunOf (ChecksCreate request) = Some request"
| "checkRunOf _ = None"

definition checkRuns :: "event list \<Rightarrow> CheckRun list" where
  "checkRuns t = List.map_filter checkRunOf t"

text \<open>The publication steps: the check run and the calls on pull-request comments.\<close>

fun publicationOf :: "event \<Rightarrow> event option" where
  "publicationOf (ChecksCreate request) = Some (ChecksCreate request)"
| "publicationOf (IssuesListComments a b n) = Some (IssuesListComments a b n)"
| "publicationOf (IssuesUpdateComment a b n c) = Some (IssuesUpdateComment a b n c)"
| "publicationOf (IssuesCreateComment a b n c) = Some (IssuesCreateComment a b n c)"
| "publicationOf _ = None"

definition publicationCalls :: "event list \<Rightarrow> event list" where
  "publicationCalls t = List.map_filter publicationOf t"

text \<open>The pull requests whose comments were listed, in order: the ones the loop reached.\<close>

fun pullReached :: "event \<Rightarrow> int option" where
  "pullReached (IssuesListComments _ _ n) = Some n"
| "pullReached _ = None"

definition pullsReached :: "event list \<Rightarrow> int list" where
  "pullsReached t = List.map_filter pullReached t"

text \<open>A member of that name is present in a parsed object, whatever its value.\<close>

fun hasMember :: "json \<Rightarrow> jsstring \<Rightarrow> bool" where
  "hasMember (JObject members) k = (k \<in> fst ` set members)"
| "hasMember _ k = False"

section \<open>\<open>path.relative\<close> on a POSIX platform\<close>

text \<open>
  Node's \<open>path.relative(from, to)\<close> on POSIX, for a process with the working directory
  \<open>workdir\<close> (an absolute path): both paths are resolved against \<open>workdir\<close> and normalised
  (empty and \<open>.\<close> segments dropped, \<open>..\<close> removing the segment before it), their
  common leading segments are dropped, and the result climbs out of what is left of
  \<open>from\<close> and descends into what is left of \<open>to\<close>. Only \<open>/\<close> separates segments.
\<close>

fun splitOn :: "16 word \<Rightarrow> jsstring \<Rightarrow> jsstring list" where
  "splitOn sep [] = [[]]"
| "splitOn sep (c # s) =
     (if c = sep then [] # splitOn sep s
      else (case splitOn sep s of [] \<Rightarrow> [[c]] | seg # segs \<Rightarrow> (c # seg) # segs))"

fun joinWith :: "16 word \<Rightarrow> jsstring list \<Rightarrow> jsstring" where
  "joinWith sep [] = []"
| "joinWith sep [s] = s"
| "joinWith sep (s # t # ss) = s @ sep # joinWith sep (t # ss)"

fun normalizeAbs :: "jsstring list \<Rightarrow> jsstring list \<Rightarrow> jsstring list" where
  "normalizeAbs kept [] = rev kept"
| "normalizeAbs kept (seg # segs) =
     (if seg = [] \<or> seg = js ''.'' then normalizeAbs kept segs
      else if seg = js ''..'' then normalizeAbs (case kept of [] \<Rightarrow> [] | _ # k \<Rightarrow> k) segs
      else normalizeAbs (seg # kept) segs)"

definition posixResolve :: "jsstring \<Rightarrow> jsstring \<Rightarrow> jsstring list" where
  "posixResolve workdir p =
     normalizeAbs []
       (splitOn slash (case p of [] \<Rightarrow> workdir | c # _ \<Rightarrow> if c = slash then p else workdir @ slash # p))"

fun dropCommon :: "jsstring list \<Rightarrow> jsstring list \<Rightarrow> jsstring list \<times> jsstring list" where
  "dropCommon (a # as) (b # bs) = (if a = b then dropCommon as bs else (a # as, b # bs))"
| "dropCommon as bs = (as, bs)"

definition posixRelative :: "jsstring \<Rightarrow> jsstring \<Rightarrow> jsstring \<Rightarrow> jsstring" where
  "posixRelative workdir from to =
     (case dropCommon (posixResolve workdir from) (posixResolve workdir to) of
        (up, down) \<Rightarrow> joinWith slash (replicate (length up) (js ''..'') @ down))"

section \<open>Concrete runs\<close>

definition warningViolation :: ModularGuardViolation where
  "warningViolation =
     \<lparr> severity = js ''Warning'', projectName = js ''Module.App'',
       invalidReference = js ''Shared.Utilities'', ruleName = js ''ConfigurableRule[app]'',
       description = js ''Consider using Shared.Core instead'', suggestion = None,
       documentationUrl = None, filePath = js ''/ws/src/Module.App.csproj'', lineNumber = 8,
       columnNumber = 5 \<rparr>"

definition warningsOnly :: ModularGuardResult where
  "warningsOnly =
     \<lparr> summary = \<lparr> totalModules = 2, totalProjects = 10, errorCount = 0, warningCount = 1,
                   isValid = True \<rparr>,
       modules = [], violations = [warningViolation] \<rparr>"

definition cleanResult :: ModularGuardResult where
  "cleanResult =
     \<lparr> summary = \<lparr> totalModules = 3, totalProjects = 15, errorCount = 0, warningCount = 0,
                   isValid = True \<rparr>,
       modules = [], violations = [] \<rparr>"

definition errorResult :: ModularGuardResult where
  "errorResult =
     \<lparr> summary = \<lparr> totalModules = 2, totalProjects = 10, errorCount = 1, warningCount = 4,
                   isValid = False \<rparr>,
       modules = [], violations = [warningViolation \<lparr> severity := js ''Error'' \<rparr>] \<rparr>"

definition manyViolations :: ModularGuardResult where
  "manyViolations =
     \<lparr> summary = \<lparr> totalModules = 2, totalProjects = 10, errorCount = 0, warningCount = 75,
                   isValid = True \<rparr>,
       modules = [], violations = replicate 75 warningViolation \<rparr>"

definition pipeViolation :: ModularGuardViolation where
  "pipeViolation = warningViolation \<lparr> description := js ''a|b'' \<rparr>"

definition someInputs :: Inputs where
  "someInputs = \<lparr> directory = js ''.'', token = js ''t'', modularguardVersion = js ''latest'',
                   configPath = None \<rparr>"

definition someContext :: Context where
  "someContext = \<lparr> owner = js ''o'', repo = js ''r'', sha = js ''abc'' \<rparr>"

definition someEnv :: ProcessEnv where
  "someEnv = \<lparr> GITHUB_WORKSPACE = Some (js ''/ws''), GITHUB_SERVER_URL = Some (js ''https://github.com''),
               GITHUB_REPOSITORY = Some (js ''o/r''), GITHUB_RUN_ID = Some (js ''1''), cwd = js ''/ws'' \<rparr>"

text \<open>A commit without a pull request, analysed with warnings only.\<close>

definition noPullWorld :: World where
  "noPullWorld =
     \<lparr> pullsOfCommit = Inr [], download = Inr (js ''/tool/modularguard''), analysis = Inr warningsOnly,
       checksCreate = (\<lambda>_. Inr ()), listComments = (\<lambda>_. Inr []),
       updateComment = (\<lambda>_ _. Inr ()), createComment = (\<lambda>_ _. Inr ()),
       pathRelative = posixRelative (js ''/ws'') \<rparr>"

text \<open>A commit of two pull requests, where creating the comment on the first one fails.\<close>

definition twoPulls :: "PullRequest list" where
  "twoPulls = [\<lparr> number = 1, html_url = js ''https://github.com/o/r/pull/1'' \<rparr>,
              \<lparr> number = 2, html_url = js ''https://github.com/o/r/pull/2'' \<rparr>]"



text \<open>The same commit when every call succeeds.\<close>

definition twoPullWorld :: World where
  "twoPullWorld = noPullWorld \<lparr> pullsOfCommit := Inr twoPulls \<rparr>"

text \<open>An output of the analyser whose \<open>summary\<close> member is present and \<open>null\<close>.\<close>

definition nullSummaryStdout :: jsstring where
  "nullSummaryStdout = js ''{\"summary\":null,\"modules\":[],\"violations\":[]}''"

definition nullSummaryJson :: json where
  "nullSummaryJson =
     JObject [(js ''summary'', JNull), (js ''modules'', JArray []), (js ''violations'', JArray [])]"

definition parsesNullSummary :: "jsstring \<Rightarrow> jsstring + json" where
  "parsesNullSummary s =
     (if s = nullSummaryStdout then Inr nullSummaryJson else Inl (js ''Unexpected token''))"

text \<open>A path with Windows separators below the workspace root \<open>/ws\<close>: \<open>/ws/a\..\b\<close>.\<close>

definition mixedPath :: jsstring where
  "mixedPath = js ''/ws/a'' @ [backslash] @ js ''..'' @ [backslash] @ js ''b''"

text \<open>A violation whose description has 150 code units.\<close>

definition longViolation :: ModularGuardViolation where
  "longViolation = warningViolation \<lparr> description := replicate 150 0x41 \<rparr>"

text \<open>An output of the analyser with the three members, none of them empty-valued in the
  sense of the structure check.\<close>

definition validStdout :: jsstring where
  "validStdout = js ''{\"summary\":{},\"modules\":[],\"violations\":[]}''"

definition validJson :: json where
  "validJson =
     JObject [(js ''summary'', JObject []), (js ''modules'', JArray []), (js ''violations'', JArray [])]"

definition parsesValid :: "jsstring \<Rightarrow> jsstring + json" where
  "parsesValid s = (if s = validStdout then Inr validJson else Inl (js ''Unexpected token''))"

text \<open>The path of the repository's test on Windows separators, below \<open>/ws\<close>:
  \<open>/ws/src\module\File.cs\<close>.\<close>

definition windowsStylePath :: jsstring where
  "windowsStylePath = js ''/ws/src'' @ [backslash] @ js ''module'' @ [backslash] @ js ''File.cs''"

text \<open>A violation whose project name holds a line feed.\<close>

definition lineFeedViolation :: ModularGuardViolation where
  "lineFeedViolation = warningViolation \<lparr> projectName := js ''a\<newline>b'' \<rparr>"

text \<open>A segment that normalisation keeps as it is.\<close>

definition cleanSegment :: "jsstring \<Rightarrow> bool" where
  "cleanSegment s = (s \<noteq> [] \<and> s \<noteq> js ''.'' \<and> s \<noteq> js ''..'')"

section \<open>Facts about actions\<close>

lemma fst_succeed [simp]: "fst (succeed x) = []"
  by (simp add: succeed_def)

lemma snd_succeed [simp]: "snd (succeed x) = Inr x"
  by (simp add: succeed_def)

lemma fst_throw [simp]: "fst (throw m) = []"
  by (simp add: throw_def)

lemma snd_throw [simp]: "snd (throw m) = Inl m"
  by (simp add: throw_def)

lemma fst_emit [simp]: "fst (emit e) = [e]"
  by (simp add: emit_def)

lemma snd_emit [simp]: "snd (emit e) = Inr ()"
  by (simp add: emit_def)

lemma fst_emitAll [simp]: "fst (emitAll es) = es"
  by (simp add: emitAll_def)

lemma snd_emitAll [simp]: "snd (emitAll es) = Inr ()"
  by (simp add: emitAll_def)

lemma fst_external [simp]: "fst (external q r) = [q]"
  by (simp add: external_def)

lemma snd_external [simp]: "snd (external q r) = r"
  by (simp add: external_def)

lemma fst_andThen: "fst (andThen m f) = fst m @ (case snd m of Inl e \<Rightarrow> [] | Inr x \<Rightarrow> fst (f x))"
  by (simp add: andThen_def split: prod.splits sum.splits)

lemma snd_andThen: "snd (andThen m f) = (case snd m of Inl e \<Rightarrow> Inl e | Inr x \<Rightarrow> snd (f x))"
  by (simp add: andThen_def split: prod.splits sum.splits)

lemma fst_seq: "fst (seq m k) = fst m @ (case snd m of Inl e \<Rightarrow> [] | Inr x \<Rightarrow> fst k)"
  by (simp add: seq_def fst_andThen)

lemma snd_seq: "snd (seq m k) = (case snd m of Inl e \<Rightarrow> Inl e | Inr x \<Rightarrow> snd k)"
  by (simp add: seq_def snd_andThen)

lemma fst_tryCatch: "fst (tryCatch m h) = fst m @ (case snd m of Inl e \<Rightarrow> fst (h e) | Inr x \<Rightarrow> [])"
  by (simp add: tryCatch_def split: prod.splits sum.splits)

lemma snd_tryCatch: "snd (tryCatch m h) = (case snd m of Inl e \<Rightarrow> snd (h e) | Inr x \<Rightarrow> Inr x)"
  by (simp add: tryCatch_def split: prod.splits sum.splits)

lemmas action_simps = fst_andThen snd_andThen fst_seq snd_seq fst_tryCatch snd_tryCatch

section \<open>What each part of the run can emit\<close>

lemma map_filter_app: "List.map_filter f (a @ b) = List.map_filter f a @ List.map_filter f b"
  by (simp add: map_filter_def)

lemma map_filter_nil: "List.map_filter f [] = []"
  by (simp add: map_filter_def)

lemma map_filter_cons:
  "List.map_filter f (e # t) = (case f e of None \<Rightarrow> List.map_filter f t | Some m \<Rightarrow> m # List.map_filter f t)"
  by (simp add: map_filter_def split: option.splits)

lemmas obs_simps = map_filter_app map_filter_nil map_filter_cons

lemma obs_info_map:
  assumes "\<And>x. f (CoreInfo x) = None"
  shows "List.map_filter f (map (\<lambda>x. CoreInfo (g x)) xs) = []"
  by (induction xs) (simp_all add: obs_simps assms)

lemma obs_printViolation:
  assumes "\<And>x. f (CoreInfo x) = None"
  shows "List.map_filter f (printViolation iv) = []"
  by (cases iv) (simp add: printViolation_def Let_def obs_simps assms)

lemma obs_printViolations:
  assumes "\<And>x. f (CoreInfo x) = None"
  shows "List.map_filter f (concat (map printViolation ivs)) = []"
  by (induction ivs) (simp_all add: obs_simps obs_printViolation assms)

lemma obs_console:
  assumes "\<And>x. f (CoreInfo x) = None"
  shows "List.map_filter f (fst (printViolationsToConsole r)) = []"
  by (simp add: printViolationsToConsole_def action_simps obs_simps obs_printViolations assms)

lemma snd_console [simp]: "snd (printViolationsToConsole r) = Inr ()"
  by (simp add: printViolationsToConsole_def action_simps)

lemma obs_analysisLog:
  assumes "\<And>x. f (CoreInfo x) = None"
  shows "List.map_filter f (fst (analysisLog r)) = []"
  by (simp add: analysisLog_def obs_simps assms)

lemma snd_analysisLog [simp]: "snd (analysisLog r) = Inr ()"
  by (simp add: analysisLog_def)

lemma snd_setOutputs [simp]: "snd (setOutputs r) = Inr ()"
  by (simp add: setOutputs_def)

lemma obs_setOutputs:
  assumes "\<And>k v. f (CoreSetOutput k v) = None"
  shows "List.map_filter f (fst (setOutputs r)) = []"
  by (simp add: setOutputs_def obs_simps assms)

lemma obs_findExistingComment:
  assumes "\<And>x. f (CoreWarning x) = None" and "\<And>a b n. f (IssuesListComments a b n) = None"
  shows "List.map_filter f (fst (findExistingComment w ow rp n)) = []"
  by (simp add: findExistingComment_def action_simps Let_def obs_simps assms split: sum.splits)

lemma snd_findExistingComment: "\<exists>found. snd (findExistingComment w ow rp n) = Inr found"
  by (simp add: findExistingComment_def action_simps Let_def split: sum.splits)

lemma obs_createOrUpdateComment:
  assumes "\<And>a b n c. f (IssuesUpdateComment a b n c) = None"
    and "\<And>a b n c. f (IssuesCreateComment a b n c) = None"
  shows "List.map_filter f (fst (createOrUpdateComment w ow rp n b i)) = []"
  by (simp add: createOrUpdateComment_def action_simps Let_def obs_simps assms
           split: sum.splits option.splits)

lemma obs_postComment:
  assumes "\<And>x. f (CoreInfo x) = None" and "\<And>x. f (CoreWarning x) = None"
    and "\<And>a b n. f (IssuesListComments a b n) = None"
    and "\<And>a b n c. f (IssuesUpdateComment a b n c) = None"
    and "\<And>a b n c. f (IssuesCreateComment a b n c) = None"
  shows "List.map_filter f (fst (postComment w c r u p)) = []"
  by (simp add: postComment_def action_simps Let_def obs_simps obs_findExistingComment
        obs_createOrUpdateComment assms split: sum.splits)

lemma obs_postComments:
  assumes "\<And>x. f (CoreInfo x) = None" and "\<And>x. f (CoreWarning x) = None"
    and "\<And>a b n. f (IssuesListComments a b n) = None"
    and "\<And>a b n c. f (IssuesUpdateComment a b n c) = None"
    and "\<And>a b n c. f (IssuesCreateComment a b n c) = None"
  shows "List.map_filter f (fst (forEach (postComment w c r u) ps)) = []"
  by (induction ps) (simp_all add: action_simps obs_simps obs_postComment assms split: sum.splits)

lemma fst_createCheckRun:
  "fst (createCheckRun w ow rp hs r) = [ChecksCreate (checkRunRequest ow rp hs r)]"
  by (simp add: createCheckRun_def action_simps Let_def split: sum.splits)

lemmas obs_parts = obs_info_map obs_console obs_analysisLog obs_setOutputs obs_postComments
  fst_createCheckRun

lemma postComment_completes:
  assumes "\<And>n b. createComment w n b = Inr ()" and "\<And>n b. updateComment w n b = Inr ()"
  shows "snd (postComment w c r u p) = Inr ()"
  using snd_findExistingComment [of w "owner c" "repo c" "number p"]
  by (auto simp add: postComment_def createOrUpdateComment_def action_simps Let_def assms
           split: sum.splits option.splits)

lemma forEach_completes:
  assumes "\<And>x. snd (f x) = Inr ()"
  shows "snd (forEach f xs) = Inr ()"
  by (induction xs) (simp_all add: action_simps assms)

lemma run_completes:
  assumes "pullsOfCommit w = Inr pulls" and "download w = Inr binaryPath"
    and "analysis w = Inr result" and "\<And>request. checksCreate w request = Inr ()"
    and "\<And>n b. createComment w n b = Inr ()" and "\<And>n b. updateComment w n b = Inr ()"
  shows "snd (run inputs w ctx env) = Inr ()"
  by (simp add: run_def createCheckRun_def action_simps Let_def assms
        forEach_completes postComment_completes)

lemma main_trace:
  "fst (main (Inr (inputs, ctx)) w env) =
     fst (run inputs w ctx env)
     @ (case snd (run inputs w ctx env) of Inl e \<Rightarrow> [CoreSetFailed e, ConsoleError e] | Inr u \<Rightarrow> [])"
  by (simp add: main_def action_simps split: sum.splits)

lemma showInt_small: "showInt 0 = js ''0''" "showInt 1 = js ''1''" "showInt 2 = js ''2''"
  "showInt 25 = js ''25''" "showInt 75 = js ''75''"
  by (simp_all add: showInt_def digits.simps js_def)

section \<open>The outcome of the run\<close>

lemma run_failureMessages:
  assumes "snd (run inputs w ctx env) = Inr ()" and "analysis w = Inr result"
  shows "failureMessages (fst (run inputs w ctx env)) =
     (if length (violations result) > 0
      then [js ''ModularGuard analysis found '' @ showInt (int (length (violations result)))
            @ js '' violation(s): '' @ showInt (errorCount (summary result)) @ js '' error(s) and ''
            @ showInt (warningCount (summary result)) @ js '' warning(s)'']
      else [])"
  using assms
  by (simp add: run_def failureMessages_def action_simps Let_def obs_simps obs_parts
           split: sum.splits if_splits)

text \<open>
  C1. Let the analysis give \<open>result\<close>. Whenever \<open>result\<close> has a violation, the run is
  marked failed, whatever the severities and whatever else happens. When \<open>run\<close> returns
  (no call threw), the run is marked failed exactly once, with the message that reports
  the number of violations, the error count and the warning count, if there is a
  violation, and it is not marked failed at all if there is none.
\<close>

theorem run_fails_on_any_violation:
  assumes "analysis w = Inr result"
  shows "(length (violations result) > 0 \<longrightarrow>
            failureMessages (fst (main (Inr (inputs, ctx)) w env)) \<noteq> [])
       \<and> (snd (run inputs w ctx env) = Inr () \<longrightarrow>
            failureMessages (fst (main (Inr (inputs, ctx)) w env)) =
              (if length (violations result) > 0
               then [js ''ModularGuard analysis found '' @ showInt (int (length (violations result)))
                     @ js '' violation(s): '' @ showInt (errorCount (summary result))
                     @ js '' error(s) and '' @ showInt (warningCount (summary result))
                     @ js '' warning(s)'']
               else []))"
proof (intro conjI impI)
  assume fin: "snd (run inputs w ctx env) = Inr ()"
  from run_failureMessages [OF fin assms] fin
  show "failureMessages (fst (main (Inr (inputs, ctx)) w env)) =
          (if length (violations result) > 0
           then [js ''ModularGuard analysis found '' @ showInt (int (length (violations result)))
                 @ js '' violation(s): '' @ showInt (errorCount (summary result))
                 @ js '' error(s) and '' @ showInt (warningCount (summary result))
                 @ js '' warning(s)'']
           else [])"
    by (simp add: main_trace failureMessages_def obs_simps)
next
  assume some: "length (violations result) > 0"
  show "failureMessages (fst (main (Inr (inputs, ctx)) w env)) \<noteq> []"
  proof (cases "snd (run inputs w ctx env)")
    case (Inl e)
    then show ?thesis
      by (simp add: main_trace failureMessages_def obs_simps)
  next
    case (Inr u)
    with run_failureMessages [OF _ assms, of inputs ctx env] some show ?thesis
      by (simp add: main_trace failureMessages_def obs_simps)
  qed
qed

lemma twoPullWorld_completes: "snd (run someInputs twoPullWorld someContext someEnv) = Inr ()"
  by (rule run_completes [where pulls = twoPulls and result = warningsOnly])
     (simp_all add: twoPullWorld_def noPullWorld_def)

theorem run_fails_on_any_violation_witness:
  "analysis twoPullWorld = Inr warningsOnly
   \<and> errorCount (summary warningsOnly) = 0
   \<and> snd (run someInputs twoPullWorld someContext someEnv) = Inr ()
   \<and> failureMessages (fst (main (Inr (someInputs, someContext)) twoPullWorld someEnv)) =
       [js ''ModularGuard analysis found 1 violation(s): 0 error(s) and 1 warning(s)'']
   \<and> snd (run someInputs (twoPullWorld \<lparr> analysis := Inr cleanResult \<rparr>) someContext someEnv) = Inr ()
   \<and> failureMessages (fst (main (Inr (someInputs, someContext))
                              (twoPullWorld \<lparr> analysis := Inr cleanResult \<rparr>) someEnv)) = []"
proof -
  have a: "analysis twoPullWorld = Inr warningsOnly"
    by (simp add: twoPullWorld_def noPullWorld_def)
  have v: "length (violations warningsOnly) = 1" "errorCount (summary warningsOnly) = 0"
    "warningCount (summary warningsOnly) = 1" "violations cleanResult = []"
    by (simp_all add: warningsOnly_def cleanResult_def)
  have c: "snd (run someInputs (twoPullWorld \<lparr> analysis := Inr cleanResult \<rparr>) someContext someEnv) = Inr ()"
    by (rule run_completes [where pulls = twoPulls and result = cleanResult])
       (simp_all add: twoPullWorld_def noPullWorld_def)
  from run_fails_on_any_violation [OF a, of someInputs someContext someEnv] twoPullWorld_completes
       run_fails_on_any_violation
         [of "twoPullWorld \<lparr> analysis := Inr cleanResult \<rparr>" cleanResult someInputs someContext someEnv] c
  show ?thesis
    by (simp add: a v showInt_small js_def)
qed

section \<open>A commit without a pull request\<close>

lemma run_without_pulls_trace:
  assumes "pullsOfCommit w = Inr []" and "download w = Inr binaryPath" and "analysis w = Inr result"
  shows "run inputs w ctx env =
     ([CoreInfo (js ''Finding associated pull requests...''),
       ListPullRequestsAssociatedWithCommit (owner ctx) (repo ctx) (sha ctx),
       CoreInfo (js ''No associated pull requests found. Running analysis in non-PR mode.''),
       CoreInfo (js ''Downloading ModularGuard binary...''),
       DownloadModularGuard (modularguardVersion inputs),
       CoreInfo (js ''Binary downloaded to: '' @ binaryPath),
       CoreInfo (js ''Executing ModularGuard analysis...''),
       ExecuteModularGuard binaryPath (directory inputs) (configPath inputs)]
      @ fst (analysisLog result)
      @ fst (printViolationsToConsole (withRelativePaths w (workspaceRootOf env) result))
      @ [CoreInfo (js ''Skipping PR comments and check runs (not in PR context)'')]
      @ fst (setOutputs result)
      @ [if length (violations result) > 0
         then CoreSetFailed (js ''ModularGuard analysis found '' @ showInt (int (length (violations result)))
                @ js '' violation(s): '' @ showInt (errorCount (summary result)) @ js '' error(s) and ''
                @ showInt (warningCount (summary result)) @ js '' warning(s)'')
         else CoreInfo (checkMark @ js '' No violations found!'')],
      Inr ())"
  by (rule prod_eqI) (simp_all add: run_def action_simps Let_def assms)

text \<open>
  C2. When the commit has no pull request and the binary and the analysis are obtained,
  \<open>run\<close> returns without an error, and what it did is exactly: look for pull requests,
  download the binary, execute the analysis, log the summary, print the console report,
  skip the publication, set the outputs and decide the outcome. No check run is created
  and no comment is listed, created or updated.
\<close>

theorem run_without_pull_requests:
  assumes "pullsOfCommit w = Inr []" and "download w = Inr binaryPath" and "analysis w = Inr result"
  shows "run inputs w ctx env =
     ([CoreInfo (js ''Finding associated pull requests...''),
       ListPullRequestsAssociatedWithCommit (owner ctx) (repo ctx) (sha ctx),
       CoreInfo (js ''No associated pull requests found. Running analysis in non-PR mode.''),
       CoreInfo (js ''Downloading ModularGuard binary...''),
       DownloadModularGuard (modularguardVersion inputs),
       CoreInfo (js ''Binary downloaded to: '' @ binaryPath),
       CoreInfo (js ''Executing ModularGuard analysis...''),
       ExecuteModularGuard binaryPath (directory inputs) (configPath inputs)]
      @ fst (analysisLog result)
      @ fst (printViolationsToConsole (withRelativePaths w (workspaceRootOf env) result))
      @ [CoreInfo (js ''Skipping PR comments and check runs (not in PR context)'')]
      @ fst (setOutputs result)
      @ [if length (violations result) > 0
         then CoreSetFailed (js ''ModularGuard analysis found '' @ showInt (int (length (violations result)))
                @ js '' violation(s): '' @ showInt (errorCount (summary result)) @ js '' error(s) and ''
                @ showInt (warningCount (summary result)) @ js '' warning(s)'')
         else CoreInfo (checkMark @ js '' No violations found!'')],
      Inr ())
    \<and> publicationCalls (fst (run inputs w ctx env)) = []"
proof
  show "publicationCalls (fst (run inputs w ctx env)) = []"
    by (simp add: run_without_pulls_trace [OF assms] publicationCalls_def obs_simps obs_parts)
qed (rule run_without_pulls_trace [OF assms])

theorem run_without_pull_requests_witness:
  "pullsOfCommit noPullWorld = Inr []
   \<and> snd (run someInputs noPullWorld someContext someEnv) = Inr ()
   \<and> DownloadModularGuard (js ''latest'') \<in> set (fst (run someInputs noPullWorld someContext someEnv))
   \<and> ExecuteModularGuard (js ''/tool/modularguard'') (js ''.'') None
        \<in> set (fst (run someInputs noPullWorld someContext someEnv))
   \<and> CoreInfo (barChart @ js '' MODULARGUARD ANALYSIS RESULTS'')
        \<in> set (fst (run someInputs noPullWorld someContext someEnv))
   \<and> publicationCalls (fst (run someInputs noPullWorld someContext someEnv)) = []"
proof -
  have a: "pullsOfCommit noPullWorld = Inr []" "download noPullWorld = Inr (js ''/tool/modularguard'')"
    "analysis noPullWorld = Inr warningsOnly"
    by (simp_all add: noPullWorld_def)
  note r = run_without_pull_requests [OF a, of someInputs someContext someEnv]
  have "CoreInfo (barChart @ js '' MODULARGUARD ANALYSIS RESULTS'')
          \<in> set (fst (run someInputs noPullWorld someContext someEnv))"
    unfolding r [THEN conjunct1]
    by (simp add: printViolationsToConsole_def action_simps)
  moreover have "DownloadModularGuard (js ''latest'') \<in> set (fst (run someInputs noPullWorld someContext someEnv))
    \<and> ExecuteModularGuard (js ''/tool/modularguard'') (js ''.'') None
        \<in> set (fst (run someInputs noPullWorld someContext someEnv))
    \<and> snd (run someInputs noPullWorld someContext someEnv) = Inr ()"
    unfolding r [THEN conjunct1]
    by (simp add: someInputs_def)
  ultimately show ?thesis
    using r [THEN conjunct2] a by simp
qed

text \<open>The PR-only definition of \<open>run\<close> differs: without a pull request it returns before
  the download, and with warnings only it does not mark the run failed.\<close>

lemma run_pr_only_without_pull_requests:
  assumes "pullsOfCommit w = Inr []"
  shows "run_pr_only inputs w ctx env =
     ([CoreInfo (js ''Finding associated pull requests...''),
       ListPullRequestsAssociatedWithCommit (owner ctx) (repo ctx) (sha ctx),
       CoreInfo (js ''No associated pull requests found. Skipping analysis (PR-only mode).'')],
      Inr ())"
  by (rule prod_eqI) (simp_all add: run_pr_only_def action_simps Let_def assms)

lemma run_pr_only_failureMessages:
  assumes "snd (run_pr_only inputs w ctx env) = Inr ()" and "analysis w = Inr result"
    and "pullsOfCommit w = Inr pulls" and "pulls \<noteq> []"
  shows "failureMessages (fst (run_pr_only inputs w ctx env)) =
     (if errorCount (summary result) > 0
      then [js ''ModularGuard analysis failed: found '' @ showInt (errorCount (summary result))
            @ js '' error(s) and '' @ showInt (warningCount (summary result)) @ js '' warning(s)'']
      else [])"
  using assms
  by (simp add: run_pr_only_def failureMessages_def action_simps Let_def obs_simps obs_parts
           split: sum.splits if_splits)

section \<open>Conclusion and status\<close>

lemma output_names:
  "js ''violations-count'' \<noteq> js ''status''" "js ''error-count'' \<noteq> js ''status''"
  "js ''warning-count'' \<noteq> js ''status''"
  by (simp_all add: js_def)


lemma run_statusOutput:
  assumes "snd (run inputs w ctx env) = Inr ()" and "analysis w = Inr result"
  shows "outputsNamed (js ''status'') (fst (run inputs w ctx env)) =
           [if errorCount (summary result) > 0 then js ''failure'' else js ''success'']"
  using assms
  by (auto simp add: run_def outputsNamed_def action_simps Let_def obs_simps obs_parts setOutputs_def
        output_names split: sum.splits if_splits)

lemma summary_withRelativePaths [simp]: "summary (withRelativePaths w wsroot result) = summary result"
  by (simp add: withRelativePaths_def)

lemma run_checkRuns:
  assumes "snd (run inputs w ctx env) = Inr ()" and "analysis w = Inr result"
  shows "\<forall>request \<in> set (checkRuns (fst (run inputs w ctx env))).
           conclusion request = (if errorCount (summary result) > 0 then js ''failure'' else js ''success'')"
  using assms
  by (auto simp add: run_def checkRuns_def action_simps Let_def obs_simps obs_parts checkRunRequest_def
        split: sum.splits if_splits)


text \<open>
  C5. The conclusion of the check run is \<open>failure\<close> when the error count is positive and
  \<open>success\<close> otherwise, and so is the \<open>status\<close> output of every run that reaches the
  outputs; the warning count plays no part. The check run a run creates carries that
  conclusion.
\<close>

theorem conclusion_and_status_follow_error_count:
  "conclusion (checkRunRequest ow rp hs result) =
     (if errorCount (summary result) > 0 then js ''failure'' else js ''success'')
   \<and> fst (createCheckRun w ow rp hs result) = [ChecksCreate (checkRunRequest ow rp hs result)]
   \<and> (analysis w = Inr result \<and> snd (run inputs w ctx env) = Inr () \<longrightarrow>
        outputsNamed (js ''status'') (fst (run inputs w ctx env)) =
          [if errorCount (summary result) > 0 then js ''failure'' else js ''success'']
        \<and> (\<forall>request \<in> set (checkRuns (fst (run inputs w ctx env))).
              conclusion request =
                (if errorCount (summary result) > 0 then js ''failure'' else js ''success'')))"
proof (intro conjI impI)
  show "conclusion (checkRunRequest ow rp hs result) =
          (if errorCount (summary result) > 0 then js ''failure'' else js ''success'')"
    by (simp add: checkRunRequest_def Let_def)
  show "fst (createCheckRun w ow rp hs result) = [ChecksCreate (checkRunRequest ow rp hs result)]"
    by (rule fst_createCheckRun)
next
  assume h: "analysis w = Inr result \<and> snd (run inputs w ctx env) = Inr ()"
  then show "outputsNamed (js ''status'') (fst (run inputs w ctx env)) =
          [if errorCount (summary result) > 0 then js ''failure'' else js ''success'']"
    by (simp add: run_statusOutput)
next
  assume h: "analysis w = Inr result \<and> snd (run inputs w ctx env) = Inr ()"
  then show "\<forall>request \<in> set (checkRuns (fst (run inputs w ctx env))).
              conclusion request =
                (if errorCount (summary result) > 0 then js ''failure'' else js ''success'')"
    using run_checkRuns [of inputs w ctx env result] by blast
qed

theorem conclusion_and_status_follow_error_count_witness:
  "warningCount (summary warningsOnly) = 1
   \<and> conclusion (checkRunRequest (js ''o'') (js ''r'') (js ''abc'') warningsOnly) = js ''success''
   \<and> outputsNamed (js ''status'') (fst (run someInputs twoPullWorld someContext someEnv)) = [js ''success'']
   \<and> warningCount (summary errorResult) = 4
   \<and> conclusion (checkRunRequest (js ''o'') (js ''r'') (js ''abc'') errorResult) = js ''failure''"
proof -
  have a: "analysis twoPullWorld = Inr warningsOnly"
    by (simp add: twoPullWorld_def noPullWorld_def)
  have v: "errorCount (summary warningsOnly) = 0" "warningCount (summary warningsOnly) = 1"
    "errorCount (summary errorResult) = 1" "warningCount (summary errorResult) = 4"
    by (simp_all add: warningsOnly_def errorResult_def)
  from conclusion_and_status_follow_error_count
         [of "js ''o''" "js ''r''" "js ''abc''" warningsOnly twoPullWorld someInputs someContext someEnv]
       conclusion_and_status_follow_error_count
         [of "js ''o''" "js ''r''" "js ''abc''" errorResult twoPullWorld someInputs someContext someEnv]
       a twoPullWorld_completes
  show ?thesis
    by (simp add: v)
qed

section \<open>Publication of the comments\<close>






lemma pullsReached_postComment: "pullsReached (fst (postComment w c r u p)) = [number p]"
  by (simp add: postComment_def findExistingComment_def createOrUpdateComment_def action_simps Let_def
        pullsReached_def obs_simps split: sum.splits option.splits)

lemma pullsReached_all:
  assumes "snd (forEach (postComment w c r u) ps) = Inr ()"
  shows "pullsReached (fst (forEach (postComment w c r u) ps)) = map number ps"
  using assms
proof (induction ps)
  case Nil
  then show ?case
    by (simp add: pullsReached_def obs_simps)
next
  case (Cons p ps)
  then show ?case
    using pullsReached_postComment [of w c r u p]
    by (auto simp add: action_simps pullsReached_def obs_simps split: sum.splits)
qed

lemma run_pullsReached:
  assumes "pullsOfCommit w = Inr pulls" and "download w = Inr binaryPath" and "analysis w = Inr result"
    and "snd (createCheckRun w (owner ctx) (repo ctx) (sha ctx)
               (withRelativePaths w (workspaceRootOf env) result)) = Inr ()"
  shows "pullsReached (fst (run inputs w ctx env)) =
     pullsReached (fst (forEach (postComment w ctx (withRelativePaths w (workspaceRootOf env) result)
                                   (runUrlOf env)) pulls))"
  using assms
  by (cases pulls)
     (simp_all add: run_def action_simps Let_def pullsReached_def obs_simps obs_parts
        split: sum.splits)



lemma all_pulls_reached_when_calls_succeed:
  "pullsReached (fst (run someInputs twoPullWorld someContext someEnv)) = [1, 2]"
proof -
  have a: "pullsOfCommit twoPullWorld = Inr twoPulls" "download twoPullWorld = Inr (js ''/tool/modularguard'')"
    "analysis twoPullWorld = Inr warningsOnly"
    by (simp_all add: twoPullWorld_def noPullWorld_def)
  have k: "snd (createCheckRun twoPullWorld (owner someContext) (repo someContext) (sha someContext)
               (withRelativePaths twoPullWorld (workspaceRootOf someEnv) warningsOnly)) = Inr ()"
    by (simp add: createCheckRun_def action_simps Let_def twoPullWorld_def noPullWorld_def)
  have ok: "snd (forEach (postComment twoPullWorld c r u) ps) = Inr ()" for c r u ps
    by (rule forEach_completes, rule postComment_completes)
       (simp_all add: twoPullWorld_def noPullWorld_def)
  show ?thesis
    unfolding run_pullsReached [OF a k] pullsReached_all [OF ok]
    by (simp add: twoPulls_def)
qed




lemma code_units: "backslash = 0x5C" "slash = 0x2F" "pipe = 0x7C" "newline = 0x0A" "space = 0x20"
  by (simp_all add: backslash_def slash_def pipe_def newline_def space_def)

section \<open>The outcome of the execution\<close>

lemma executeModularGuard_outcome:
  "snd (executeModularGuard jsonParse (Inr (exitCode, out, err)) binaryPath dir cfg) =
     (if out = [] then Inl (js ''ModularGuard produced no output'')
      else case jsonParse out of
             Inl e \<Rightarrow> Inl (js ''Failed to parse ModularGuard output: '' @ e)
           | Inr result \<Rightarrow>
               (case snd (validateStructure result) of
                  Inl e \<Rightarrow> Inl (js ''Failed to parse ModularGuard output: '' @ e)
                | Inr r \<Rightarrow> Inr r))"
  by (simp add: executeModularGuard_def action_simps Let_def split: sum.splits prod.splits)

lemma validateStructure_outcome:
  "snd (validateStructure result) =
     (if truthy (getProp result (js ''summary'')) \<and> truthy (getProp result (js ''modules''))
         \<and> truthy (getProp result (js ''violations''))
      then Inr result
      else if result = JNull
      then Inl (js ''Cannot read properties of null (reading '' @ apostrophe @ js ''summary''
                 @ apostrophe @ js '')'')
      else Inl (js ''Invalid ModularGuard output: missing required fields''))"
  by (cases result) (simp_all add: validateStructure_def)

lemma nullSummary_facts:
  "nullSummaryStdout \<noteq> []" "parsesNullSummary nullSummaryStdout = Inr nullSummaryJson"
  "hasMember nullSummaryJson (js ''summary'')" "hasMember nullSummaryJson (js ''modules'')"
  "hasMember nullSummaryJson (js ''violations'')"
  "\<not> truthy (getProp nullSummaryJson (js ''summary''))"
  by (simp_all add: nullSummaryStdout_def parsesNullSummary_def nullSummaryJson_def js_def)

text \<open>
  The claim C3 fails: an output that parses, with the three members present and
  \<open>summary\<close> being \<open>null\<close>, is not returned; \<open>executeModularGuard\<close> throws.
\<close>

theorem present_but_null_member_counterexample:
  "nullSummaryStdout \<noteq> []
   \<and> parsesNullSummary nullSummaryStdout = Inr nullSummaryJson
   \<and> hasMember nullSummaryJson (js ''summary'')
   \<and> hasMember nullSummaryJson (js ''modules'')
   \<and> hasMember nullSummaryJson (js ''violations'')
   \<and> snd (executeModularGuard parsesNullSummary (Inr (0, nullSummaryStdout, [])) (js ''/tool/modularguard'')
             (js ''.'') None) =
       Inl (js ''Failed to parse ModularGuard output: ''
            @ js ''Invalid ModularGuard output: missing required fields'')"
  by (simp add: nullSummary_facts executeModularGuard_outcome validateStructure_outcome)
     (simp add: nullSummaryJson_def)


text \<open>
  C3, amended. Once the subprocess has run, \<open>executeModularGuard\<close> returns the parsed
  value exactly when stdout is not empty, parses as JSON, and the parsed value has a truthy
  \<open>summary\<close>, a truthy \<open>modules\<close> and a truthy \<open>violations\<close> member (a member that is
  missing, \<open>null\<close>, \<open>false\<close>, \<open>0\<close> or the empty string is not truthy; a parsed value
  that is \<open>null\<close> or not an object has no truthy member); in every other case it throws.
  The exit code plays no part. It also throws when the subprocess cannot be started.
\<close>

theorem executeModularGuard_throws_iff:
  "(snd (executeModularGuard jsonParse (Inr (exitCode, out, err)) binaryPath dir cfg) = Inr result
      \<longleftrightarrow> out \<noteq> [] \<and> jsonParse out = Inr result
           \<and> truthy (getProp result (js ''summary'')) \<and> truthy (getProp result (js ''modules''))
           \<and> truthy (getProp result (js ''violations'')))
   \<and> ((\<exists>msg. snd (executeModularGuard jsonParse (Inr (exitCode, out, err)) binaryPath dir cfg) = Inl msg)
      \<longleftrightarrow> out = [] \<or> (\<exists>e. jsonParse out = Inl e)
           \<or> (\<exists>parsed. jsonParse out = Inr parsed
                \<and> \<not> (truthy (getProp parsed (js ''summary'')) \<and> truthy (getProp parsed (js ''modules''))
                       \<and> truthy (getProp parsed (js ''violations'')))))
   \<and> snd (executeModularGuard jsonParse (Inr (exitCode, out, err)) binaryPath dir cfg) =
       snd (executeModularGuard jsonParse (Inr (exitCode', out, err)) binaryPath dir cfg)
   \<and> snd (executeModularGuard jsonParse (Inl e0) binaryPath dir cfg) =
       Inl (js ''Failed to execute ModularGuard: '' @ e0)"
proof (intro conjI)
  show "snd (executeModularGuard jsonParse (Inr (exitCode, out, err)) binaryPath dir cfg) = Inr result
      \<longleftrightarrow> out \<noteq> [] \<and> jsonParse out = Inr result
           \<and> truthy (getProp result (js ''summary'')) \<and> truthy (getProp result (js ''modules''))
           \<and> truthy (getProp result (js ''violations''))"
    by (auto simp add: executeModularGuard_outcome validateStructure_outcome split: sum.splits if_splits)
  show "(\<exists>msg. snd (executeModularGuard jsonParse (Inr (exitCode, out, err)) binaryPath dir cfg) = Inl msg)
      \<longleftrightarrow> out = [] \<or> (\<exists>e. jsonParse out = Inl e)
           \<or> (\<exists>parsed. jsonParse out = Inr parsed
                \<and> \<not> (truthy (getProp parsed (js ''summary'')) \<and> truthy (getProp parsed (js ''modules''))
                       \<and> truthy (getProp parsed (js ''violations''))))"
    by (auto simp add: executeModularGuard_outcome validateStructure_outcome split: sum.splits if_splits)
  show "snd (executeModularGuard jsonParse (Inr (exitCode, out, err)) binaryPath dir cfg) =
       snd (executeModularGuard jsonParse (Inr (exitCode', out, err)) binaryPath dir cfg)"
    by (simp add: executeModularGuard_outcome)
  show "snd (executeModularGuard jsonParse (Inl e0) binaryPath dir cfg) =
       Inl (js ''Failed to execute ModularGuard: '' @ e0)"
    by (simp add: executeModularGuard_def action_simps Let_def)
qed

theorem executeModularGuard_throws_iff_witness:
  "snd (executeModularGuard parsesValid (Inr (1, validStdout, js ''warn'')) (js ''/tool/modularguard'')
          (js ''.'') None) = Inr validJson
   \<and> snd (executeModularGuard parsesValid (Inr (0, [], [])) (js ''/tool/modularguard'') (js ''.'') None) =
       Inl (js ''ModularGuard produced no output'')"
proof -
  have v: "validStdout \<noteq> []" "parsesValid validStdout = Inr validJson"
    "truthy (getProp validJson (js ''summary''))" "truthy (getProp validJson (js ''modules''))"
    "truthy (getProp validJson (js ''violations''))"
    by (simp_all add: validStdout_def parsesValid_def validJson_def js_def)
  from executeModularGuard_throws_iff
         [of parsesValid 1 validStdout "js ''warn''" "js ''/tool/modularguard''" "js ''.''" None validJson]
       v
  have "snd (executeModularGuard parsesValid (Inr (1, validStdout, js ''warn'')) (js ''/tool/modularguard'')
          (js ''.'') None) = Inr validJson"
    by blast
  then show ?thesis
    by (simp add: executeModularGuard_outcome)
qed

section \<open>The check run\<close>

text \<open>
  C4. The request \<open>createCheckRun\<close> sends carries the annotations of the first 50
  violations, so as many annotations as the smaller of 50 and the number of violations;
  its summary is the summary text followed, when there are more than 50 violations, by
  one note that gives the number of violations beyond 50, and by nothing otherwise.
\<close>

theorem createCheckRun_caps_annotations:
  "fst (createCheckRun w ow rp hs result) = [ChecksCreate (checkRunRequest ow rp hs result)]
   \<and> annotations (checkRunRequest ow rp hs result) = map toAnnotation (take 50 (violations result))
   \<and> length (annotations (checkRunRequest ow rp hs result)) = min (length (violations result)) 50
   \<and> output_summary (checkRunRequest ow rp hs result) =
       summaryTextBase result
       @ (if length (violations result) > 50
          then js ''\<newline>\<newline>'' @ warningSign @ js '' Note: Only showing the first 50 annotations. ''
               @ showInt (int (length (violations result)) - 50) @ js '' additional violation(s) not shown.''
          else [])"
  by (simp add: fst_createCheckRun checkRunRequest_def summaryTextBase_def Let_def)

theorem createCheckRun_caps_annotations_witness:
  "length (violations manyViolations) = 75
   \<and> length (annotations (checkRunRequest (js ''o'') (js ''r'') (js ''abc'') manyViolations)) = 50
   \<and> output_summary (checkRunRequest (js ''o'') (js ''r'') (js ''abc'') manyViolations) =
       js ''## ModularGuard Analysis\<newline>\<newline>**Total Modules:** 2\<newline>**Total Projects:** 10\<newline>**Errors:** 0\<newline>**Warnings:** 75\<newline>\<newline>Found 75 violation(s).\<newline>\<newline>See annotations on the Files Changed tab for details.\<newline>\<newline>''
       @ warningSign
       @ js '' Note: Only showing the first 50 annotations. 25 additional violation(s) not shown.''"
proof -
  have n: "length (violations manyViolations) = 75"
    by (simp add: manyViolations_def)
  have s: "summary manyViolations = \<lparr> totalModules = 2, totalProjects = 10, errorCount = 0,
             warningCount = 75, isValid = True \<rparr>"
    by (simp add: manyViolations_def)
  have d: "showInt 10 = js ''10''"
    by (simp add: showInt_def digits.simps js_def)
  from createCheckRun_caps_annotations [of noPullWorld "js ''o''" "js ''r''" "js ''abc''" manyViolations]
  show ?thesis
    by (simp add: n s d summaryTextBase_def showInt_small js_def)
qed

section \<open>The markdown comment\<close>

lemma badges_differ:
  "crossMark @ js '' **Analysis Failed**\<newline>\<newline>'' \<noteq> warningSign @ js '' **Analysis Passed with Warnings**\<newline>\<newline>''"
  "crossMark @ js '' **Analysis Failed**\<newline>\<newline>'' \<noteq> checkMark @ js '' **Analysis Passed**\<newline>\<newline>''"
  "warningSign @ js '' **Analysis Passed with Warnings**\<newline>\<newline>'' \<noteq> checkMark @ js '' **Analysis Passed**\<newline>\<newline>''"
  by (simp_all add: crossMark_def warningSign_def checkMark_def)

text \<open>
  C6. The comment begins with the marker, then the heading, then one status line, then
  the summary heading and the four counters. The status line is the failed badge when
  the error count is positive (whatever the warning count), else the warnings badge when
  the warning count is positive, else the passed badge; the three badges differ.
\<close>

theorem formatComment_structure:
  "prefix
     (js ''<!-- modularguard-results -->'' @ js ''\<newline>\<newline>''
      @ js ''## ModularGuard Analysis Results\<newline>\<newline>''
      @ (if errorCount (summary result) > 0 then crossMark @ js '' **Analysis Failed**\<newline>\<newline>''
         else if warningCount (summary result) > 0
         then warningSign @ js '' **Analysis Passed with Warnings**\<newline>\<newline>''
         else checkMark @ js '' **Analysis Passed**\<newline>\<newline>'')
      @ js ''### Summary\<newline>\<newline>''
      @ js ''- **Total Modules:** '' @ showInt (totalModules (summary result)) @ js ''\<newline>''
      @ js ''- **Total Projects:** '' @ showInt (totalProjects (summary result)) @ js ''\<newline>''
      @ js ''- **Errors:** '' @ showInt (errorCount (summary result)) @ js ''\<newline>''
      @ js ''- **Warnings:** '' @ showInt (warningCount (summary result)) @ js ''\<newline>\<newline>'')
     (formatComment result runUrl)
   \<and> crossMark @ js '' **Analysis Failed**\<newline>\<newline>''
       \<noteq> warningSign @ js '' **Analysis Passed with Warnings**\<newline>\<newline>''
   \<and> crossMark @ js '' **Analysis Failed**\<newline>\<newline>'' \<noteq> checkMark @ js '' **Analysis Passed**\<newline>\<newline>''
   \<and> warningSign @ js '' **Analysis Passed with Warnings**\<newline>\<newline>''
       \<noteq> checkMark @ js '' **Analysis Passed**\<newline>\<newline>''"
  by (simp add: formatComment_def marker_def statusBadge_def Let_def badges_differ)


theorem formatComment_structure_witness:
  "warningCount (summary errorResult) = 4
   \<and> prefix
       (js ''<!-- modularguard-results -->\<newline>\<newline>## ModularGuard Analysis Results\<newline>\<newline>''
        @ crossMark
        @ js '' **Analysis Failed**\<newline>\<newline>### Summary\<newline>\<newline>- **Total Modules:** 2\<newline>- **Total Projects:** 10\<newline>- **Errors:** 1\<newline>- **Warnings:** 4\<newline>\<newline>'')
       (formatComment errorResult None)"
proof -
  have s: "summary errorResult = \<lparr> totalModules = 2, totalProjects = 10, errorCount = 1,
             warningCount = 4, isValid = False \<rparr>"
    by (simp add: errorResult_def)
  have d: "showInt 10 = js ''10''" "showInt 4 = js ''4''"
    by (simp_all add: showInt_def digits.simps js_def)
  from formatComment_structure [of errorResult None]
  show ?thesis
    by (simp add: s d showInt_small js_def)
qed

section \<open>The rows of the violations table\<close>

lemma digit_not_pipe: "n < 10 \<Longrightarrow> (of_nat (48 + n) :: 16 word) \<noteq> pipe"
proof -
  assume "n < 10"
  then have "n \<in> {0, 1, 2, 3, 4, 5, 6, 7, 8, 9}"
    by auto
  then show ?thesis
    by (auto simp add: pipe_def)
qed

lemma pipe_notin_digits: "pipe \<notin> set (digits n)"
proof (induction n rule: digits.induct)
  case (1 n)
  show ?case
  proof (cases "n < 10")
    case True
    then show ?thesis
      using digit_not_pipe [of n] by (simp add: digits.simps [of n])
  next
    case False
    then have "n mod 10 < 10"
      by simp
    with False 1 show ?thesis
      using digit_not_pipe [of "n mod 10"] by (simp add: digits.simps [of n])
  qed
qed

lemma pipe_notin_showInt: "pipe \<notin> set (showInt i)"
  by (simp add: showInt_def pipe_notin_digits) (simp add: js_def pipe_def)

lemma count_pipe_showInt [simp]: "count_list (showInt i) pipe = 0"
  using pipe_notin_showInt by (simp add: count_list_0_iff)

lemma count_pipe_icon [simp]: "count_list (severityIcon s) pipe = 0"
  by (simp add: severityIcon_def redCircle_def warningSign_def pipe_def)

lemma count_list_app: "count_list (xs @ ys) x = count_list xs x + count_list ys x"
  by (induction xs) simp_all

lemma count_pipe_literals:
  "count_list (js ''| '') pipe = 1" "count_list (js '' | '') pipe = 1"
  "count_list (js '' |\<newline>'') pipe = 1" "count_list (js '' '') pipe = 0"
  "count_list (js ''`'') pipe = 0" "count_list (js '':'') pipe = 0"
  by (simp_all add: js_def pipe_def)

lemma count_list_take: "count_list (take n xs) x \<le> count_list xs x"
proof -
  have "count_list xs x = count_list (take n xs) x + count_list (drop n xs) x"
    by (simp add: count_list_app [symmetric])
  then show ?thesis
    by simp
qed

lemma count_pipe_unfolded:
  "count_list (map (\<lambda>c. if c = newline then space else c) xs) pipe = count_list xs pipe"
  by (induction xs) (simp_all add: code_units)

lemma count_pipe_row:
  "count_list (violationRow v) pipe =
     6 + count_list (severity v) pipe + count_list (filePath v) pipe + count_list (projectName v) pipe
       + count_list (invalidReference v) pipe + count_list (descriptionCell v) pipe"
  by (simp add: violationRow_def fileLocation_def count_list_app count_pipe_literals)

text \<open>
  The claim C7 fails: a row has five columns when it has six delimiters, and a
  description of three code units with a delimiter in it gives a row of seven.
\<close>

theorem description_pipe_counterexample:
  "length (description pipeViolation) \<le> 100
   \<and> count_list (violationRow warningViolation) pipe = 6
   \<and> count_list (violationRow pipeViolation) pipe = 7"
  by (simp add: count_pipe_row descriptionCell_def pipeViolation_def warningViolation_def)
     (simp add: js_def code_units)

lemma digit_not_newline: "n < 10 \<Longrightarrow> (of_nat (48 + n) :: 16 word) \<noteq> newline"
proof -
  assume "n < 10"
  then have "n \<in> {0, 1, 2, 3, 4, 5, 6, 7, 8, 9}"
    by auto
  then show ?thesis
    by (auto simp add: newline_def)
qed

lemma newline_notin_digits: "newline \<notin> set (digits n)"
proof (induction n rule: digits.induct)
  case (1 n)
  show ?case
  proof (cases "n < 10")
    case True
    then show ?thesis
      using digit_not_newline [of n] by (simp add: digits.simps [of n])
  next
    case False
    then have "n mod 10 < 10"
      by simp
    with False 1 show ?thesis
      using digit_not_newline [of "n mod 10"] by (simp add: digits.simps [of n])
  qed
qed

lemma newline_notin_showInt: "newline \<notin> set (showInt i)"
  by (simp add: showInt_def newline_notin_digits) (simp add: js_def newline_def)

lemma count_newline_showInt [simp]: "count_list (showInt i) newline = 0"
  using newline_notin_showInt by (simp add: count_list_0_iff)

lemma count_newline_icon [simp]: "count_list (severityIcon s) newline = 0"
  by (simp add: severityIcon_def redCircle_def warningSign_def newline_def)

lemma count_newline_literals:
  "count_list (js ''| '') newline = 0" "count_list (js '' | '') newline = 0"
  "count_list (js '' |\<newline>'') newline = 1" "count_list (js '' '') newline = 0"
  "count_list (js ''`'') newline = 0" "count_list (js '':'') newline = 0"
  by (simp_all add: js_def newline_def)

lemma newline_notin_cell: "newline \<notin> set (descriptionCell v)"
  by (auto simp add: descriptionCell_def code_units dest!: in_set_takeD)

lemma count_newline_row:
  "count_list (violationRow v) newline =
     1 + count_list (severity v) newline + count_list (filePath v) newline
       + count_list (projectName v) newline + count_list (invalidReference v) newline"
  using newline_notin_cell [of v]
  by (simp add: violationRow_def fileLocation_def count_list_app count_newline_literals
        count_list_0_iff)

lemma last_row: "last (violationRow v) = newline"
  by (simp add: violationRow_def js_def newline_def)

text \<open>A line feed in another field splits the row although its delimiters are six.\<close>

lemma line_feed_in_project_splits_row:
  "count_list (violationRow lineFeedViolation) pipe = 6
   \<and> count_list (violationRow lineFeedViolation) newline = 2"
  by (simp add: count_pipe_row count_newline_row descriptionCell_def lineFeedViolation_def
        warningViolation_def)
     (simp add: js_def code_units)

text \<open>
  C7, amended. The description cell of a row is exactly the description with every line
  feed replaced by a space, cut to its first 100 code units: it has no line feed and at
  most 100 code units. The row is the five cells between six delimiters, ended by a line
  feed, and nothing is escaped: the number of delimiter characters in the row is six
  plus the number of those in the severity, the path, the project, the reference and
  the description cell (the cut adds none), and the number of line feeds in the row is
  one plus the number of those in the severity, the path, the project and the reference.
  So the row has exactly six delimiters and is a single line whenever none of the five
  fields contains the delimiter and none of the other four contains a line feed. The
  rows of all violations, in order, are part of the comment.
\<close>

theorem violationRow_description_cell:
  "descriptionCell v = take 100 (map (\<lambda>c. if c = newline then space else c) (description v))
   \<and> length (descriptionCell v) = min 100 (length (description v))
   \<and> length (descriptionCell v) \<le> 100
   \<and> newline \<notin> set (descriptionCell v)
   \<and> prefix (descriptionCell v) (map (\<lambda>c. if c = newline then space else c) (description v))
   \<and> (length (description v) \<le> 100 \<longrightarrow>
        descriptionCell v = map (\<lambda>c. if c = newline then space else c) (description v))
   \<and> violationRow v =
       js ''| '' @ (if severity v = js ''Error'' then redCircle else warningSign) @ js '' '' @ severity v
       @ js '' | '' @ js ''`'' @ filePath v @ js '':'' @ showInt (lineNumber v) @ js ''`''
       @ js '' | '' @ projectName v
       @ js '' | '' @ invalidReference v
       @ js '' | '' @ take 100 (map (\<lambda>c. if c = newline then space else c) (description v))
       @ js '' |\<newline>''
   \<and> suffix (js '' | '' @ descriptionCell v @ js '' |\<newline>'') (violationRow v)
   \<and> count_list (descriptionCell v) pipe \<le> count_list (description v) pipe
   \<and> count_list (violationRow v) pipe =
       6 + count_list (severity v) pipe + count_list (filePath v) pipe + count_list (projectName v) pipe
         + count_list (invalidReference v) pipe + count_list (descriptionCell v) pipe
   \<and> count_list (violationRow v) newline =
       1 + count_list (severity v) newline + count_list (filePath v) newline
         + count_list (projectName v) newline + count_list (invalidReference v) newline
   \<and> last (violationRow v) = newline
   \<and> (pipe \<notin> set (severity v) \<union> set (filePath v) \<union> set (projectName v) \<union> set (invalidReference v)
               \<union> set (description v) \<longrightarrow>
        count_list (violationRow v) pipe = 6)
   \<and> (pipe \<notin> set (severity v) \<union> set (filePath v) \<union> set (projectName v) \<union> set (invalidReference v)
               \<union> set (description v)
       \<and> newline \<notin> set (severity v) \<union> set (filePath v) \<union> set (projectName v)
                     \<union> set (invalidReference v) \<longrightarrow>
        count_list (violationRow v) pipe = 6 \<and> count_list (violationRow v) newline = 1)
   \<and> (violations result \<noteq> [] \<longrightarrow>
        (\<exists>before after. formatComment result runUrl =
           before @ concat (map violationRow (violations result)) @ after))"
proof (intro conjI impI)
  show "descriptionCell v = take 100 (map (\<lambda>c. if c = newline then space else c) (description v))"
    by (simp add: descriptionCell_def)
  show "length (descriptionCell v) = min 100 (length (description v))"
    by (simp add: descriptionCell_def min.commute)
  show "length (descriptionCell v) \<le> 100"
    by (simp add: descriptionCell_def)
  show "newline \<notin> set (descriptionCell v)"
    by (rule newline_notin_cell)
  show "prefix (descriptionCell v) (map (\<lambda>c. if c = newline then space else c) (description v))"
    by (simp add: descriptionCell_def take_is_prefix)
  show "descriptionCell v = map (\<lambda>c. if c = newline then space else c) (description v)"
    if "length (description v) \<le> 100"
    using that by (simp add: descriptionCell_def)
  show "violationRow v =
       js ''| '' @ (if severity v = js ''Error'' then redCircle else warningSign) @ js '' '' @ severity v
       @ js '' | '' @ js ''`'' @ filePath v @ js '':'' @ showInt (lineNumber v) @ js ''`''
       @ js '' | '' @ projectName v
       @ js '' | '' @ invalidReference v
       @ js '' | '' @ take 100 (map (\<lambda>c. if c = newline then space else c) (description v))
       @ js '' |\<newline>''"
    by (simp add: violationRow_def severityIcon_def fileLocation_def descriptionCell_def)
  show "suffix (js '' | '' @ descriptionCell v @ js '' |\<newline>'') (violationRow v)"
    by (simp add: violationRow_def suffix_def)
  show le: "count_list (descriptionCell v) pipe \<le> count_list (description v) pipe"
    using count_list_take [of 100 "map (\<lambda>c. if c = newline then space else c) (description v)" pipe]
    by (simp add: descriptionCell_def count_pipe_unfolded)
  show "count_list (violationRow v) pipe =
       6 + count_list (severity v) pipe + count_list (filePath v) pipe + count_list (projectName v) pipe
         + count_list (invalidReference v) pipe + count_list (descriptionCell v) pipe"
    by (rule count_pipe_row)
  show "count_list (violationRow v) newline =
       1 + count_list (severity v) newline + count_list (filePath v) newline
         + count_list (projectName v) newline + count_list (invalidReference v) newline"
    by (rule count_newline_row)
  show "last (violationRow v) = newline"
    by (rule last_row)
  show "count_list (violationRow v) pipe = 6"
    if "pipe \<notin> set (severity v) \<union> set (filePath v) \<union> set (projectName v) \<union> set (invalidReference v)
               \<union> set (description v)"
    using that le by (simp add: count_pipe_row count_list_0_iff)
  show "count_list (violationRow v) pipe = 6"
    if "pipe \<notin> set (severity v) \<union> set (filePath v) \<union> set (projectName v) \<union> set (invalidReference v)
               \<union> set (description v)
       \<and> newline \<notin> set (severity v) \<union> set (filePath v) \<union> set (projectName v)
                     \<union> set (invalidReference v)"
    using that le by (simp add: count_pipe_row count_list_0_iff)
  show "count_list (violationRow v) newline = 1"
    if "pipe \<notin> set (severity v) \<union> set (filePath v) \<union> set (projectName v) \<union> set (invalidReference v)
               \<union> set (description v)
       \<and> newline \<notin> set (severity v) \<union> set (filePath v) \<union> set (projectName v)
                     \<union> set (invalidReference v)"
    using that by (simp add: count_newline_row count_list_0_iff)
  show "\<exists>before after. formatComment result runUrl =
           before @ concat (map violationRow (violations result)) @ after"
    if "violations result \<noteq> []"
  proof -
    have "\<exists>after. formatComment result runUrl =
       (marker @ js ''\<newline>\<newline>'' @ js ''## ModularGuard Analysis Results\<newline>\<newline>''
        @ statusBadge (errorCount (summary result) > 0) (warningCount (summary result) > 0)
        @ js ''### Summary\<newline>\<newline>''
        @ js ''- **Total Modules:** '' @ showInt (totalModules (summary result)) @ js ''\<newline>''
        @ js ''- **Total Projects:** '' @ showInt (totalProjects (summary result)) @ js ''\<newline>''
        @ js ''- **Errors:** '' @ showInt (errorCount (summary result)) @ js ''\<newline>''
        @ js ''- **Warnings:** '' @ showInt (warningCount (summary result)) @ js ''\<newline>\<newline>''
        @ js ''### Violations\<newline>\<newline>''
        @ js ''| Severity | File:Line | Project | Invalid Reference | Description |\<newline>''
        @ js ''|----------|-----------|---------|-------------------|-------------|\<newline>'')
       @ concat (map violationRow (violations result)) @ after"
      using that by (simp add: formatComment_def Let_def)
    then show ?thesis
      by blast
  qed
qed

theorem violationRow_description_cell_witness:
  "length (description longViolation) = 150
   \<and> descriptionCell longViolation = replicate 100 0x41
   \<and> length (descriptionCell longViolation) = 100
   \<and> count_list (violationRow longViolation) pipe = 6
   \<and> count_list (violationRow longViolation) newline = 1
   \<and> (\<exists>before after. formatComment warningsOnly None =
          before @ concat (map violationRow (violations warningsOnly)) @ after)"
proof -
  have f: "pipe \<notin> set (severity longViolation) \<union> set (filePath longViolation)
             \<union> set (projectName longViolation) \<union> set (invalidReference longViolation)
             \<union> set (description longViolation)"
    by (simp add: longViolation_def warningViolation_def js_def code_units)
  have g: "newline \<notin> set (severity longViolation) \<union> set (filePath longViolation)
             \<union> set (projectName longViolation) \<union> set (invalidReference longViolation)"
    by (simp add: longViolation_def warningViolation_def js_def code_units)
  have n: "violations warningsOnly \<noteq> []"
    by (simp add: warningsOnly_def)
  have d: "description longViolation = replicate 150 0x41"
    by (simp add: longViolation_def)
  note inst = violationRow_description_cell [of longViolation warningsOnly None]
  have cell: "descriptionCell longViolation = replicate 100 0x41"
    using inst [THEN conjunct1] by (simp add: d code_units)
  from inst f g have counts: "count_list (violationRow longViolation) pipe = 6
      \<and> count_list (violationRow longViolation) newline = 1"
    by blast
  from inst n have part: "\<exists>before after. formatComment warningsOnly None =
          before @ concat (map violationRow (violations warningsOnly)) @ after"
    by blast
  from counts part show ?thesis
    by (simp add: cell d)
qed

section \<open>Path normalisation\<close>

text \<open>On POSIX, when the root resolves to the working directory, \<open>path.relative\<close> maps
  its own result to itself: resolving the relative path leads back to the target.\<close>

lemma splitOn_nonempty: "splitOn sep xs \<noteq> []"
  by (induction xs) (simp_all split: list.splits)

lemma splitOn_append: "splitOn sep (a @ sep # b) = splitOn sep a @ splitOn sep b"
proof (induction a)
  case Nil
  then show ?case by simp
next
  case (Cons c a)
  then show ?case
    using splitOn_nonempty [of sep a]
    by (cases "splitOn sep a") simp_all
qed

lemma splitOn_free: "s \<in> set (splitOn sep xs) \<Longrightarrow> sep \<notin> set s"
proof (induction xs arbitrary: s)
  case Nil
  then show ?case by simp
next
  case (Cons c xs)
  then show ?case
    by (auto split: if_splits list.splits)
qed

lemma splitOn_single: "sep \<notin> set s \<Longrightarrow> splitOn sep s = [s]"
  by (induction s) auto

lemma splitOn_joinWith:
  "segs \<noteq> [] \<Longrightarrow> \<forall>s \<in> set segs. sep \<notin> set s \<Longrightarrow> splitOn sep (joinWith sep segs) = segs"
proof (induction sep segs rule: joinWith.induct)
  case (1 sep)
  then show ?case by simp
next
  case (2 sep s)
  then show ?case by (simp add: splitOn_single)
next
  case (3 sep s t ss)
  then show ?case
    by (simp add: splitOn_append splitOn_single)
qed

lemma joinWith_starts:
  "segs \<noteq> [] \<Longrightarrow> \<forall>s \<in> set segs. s \<noteq> [] \<and> sep \<notin> set s \<Longrightarrow>
     \<exists>c cs. joinWith sep segs = c # cs \<and> c \<noteq> sep"
proof (induction sep segs rule: joinWith.induct)
  case (1 sep)
  then show ?case by simp
next
  case (2 sep s)
  then show ?case by (cases s) auto
next
  case (3 sep s t ss)
  then show ?case by (cases s) auto
qed

lemma normalizeAbs_clean:
  "\<forall>s \<in> set ys. cleanSegment s \<Longrightarrow> normalizeAbs kept ys = rev kept @ ys"
  by (induction ys arbitrary: kept) (simp_all add: cleanSegment_def)

lemma dotdot_facts: "js ''..'' \<noteq> []" "js ''..'' \<noteq> js ''.''" "slash \<notin> set (js ''..'')"
  by (simp_all add: js_def slash_def)

lemma normalizeAbs_dotdots:
  "normalizeAbs kept (replicate k (js ''..'') @ ys) = normalizeAbs (drop k kept) ys"
proof (induction k arbitrary: kept)
  case 0
  then show ?case by simp
next
  case (Suc k)
  then show ?case
    by (cases kept) (simp_all add: dotdot_facts)
qed

lemma normalizeAbs_append:
  "normalizeAbs kept (xs @ ys) = normalizeAbs (rev (normalizeAbs kept xs)) ys"
  by (induction xs arbitrary: kept) simp_all

lemma normalizeAbs_keeps:
  "\<forall>s \<in> set kept. P s \<Longrightarrow> \<forall>s \<in> set xs. s \<noteq> [] \<and> s \<noteq> js ''.'' \<and> s \<noteq> js ''..'' \<longrightarrow> P s \<Longrightarrow>
     \<forall>s \<in> set (normalizeAbs kept xs). P s"
proof (induction xs arbitrary: kept)
  case Nil
  then show ?case by simp
next
  case (Cons x xs)
  have rest: "\<forall>s \<in> set xs. s \<noteq> [] \<and> s \<noteq> js ''.'' \<and> s \<noteq> js ''..'' \<longrightarrow> P s"
    using Cons.prems(2) by simp
  show ?case
  proof (cases "x = [] \<or> x = js ''.''")
    case True
    then have "normalizeAbs kept (x # xs) = normalizeAbs kept xs"
      by simp
    with Cons.IH [OF Cons.prems(1) rest] show ?thesis
      by simp
  next
    case False
    show ?thesis
    proof (cases "x = js ''..''")
      case True
      have k: "\<forall>s \<in> set (case kept of [] \<Rightarrow> [] | _ # k \<Rightarrow> k). P s"
        using Cons.prems(1) by (cases kept) simp_all
      have "normalizeAbs kept (x # xs) = normalizeAbs (case kept of [] \<Rightarrow> [] | _ # k \<Rightarrow> k) xs"
        using False True by simp
      with Cons.IH [OF k rest] show ?thesis
        by simp
    next
      case nd: False
      have k: "\<forall>s \<in> set (x # kept). P s"
        using Cons.prems False nd by simp
      have "normalizeAbs kept (x # xs) = normalizeAbs (x # kept) xs"
        using False nd by simp
      with Cons.IH [OF k rest] show ?thesis
        by simp
    qed
  qed
qed

lemma posixResolve_clean: "\<forall>s \<in> set (posixResolve wd p). cleanSegment s \<and> slash \<notin> set s"
  unfolding posixResolve_def
  by (rule normalizeAbs_keeps) (auto simp add: cleanSegment_def dest: splitOn_free)

lemma dropCommon_split: "dropCommon a b = (up, down) \<Longrightarrow> \<exists>c. a = c @ up \<and> b = c @ down"
proof (induction a b rule: dropCommon.induct)
  case (1 a as b bs)
  show ?case
  proof (cases "a = b")
    case True
    with 1 obtain c where "as = c @ up" "bs = c @ down"
      by auto
    with True have "a # as = (a # c) @ up \<and> b # bs = (a # c) @ down"
      by simp
    then show ?thesis by blast
  next
    case False
    with 1 show ?thesis by auto
  qed
qed auto

lemma resolve_relative_back:
  assumes dc: "dropCommon (posixResolve wd []) (posixResolve wd p) = (up, down)"
  shows "posixResolve wd (joinWith slash (replicate (length up) (js ''..'') @ down)) = posixResolve wd p"
proof -
  let ?W = "posixResolve wd []"
  let ?segs = "replicate (length up) (js ''..'') @ down"
  from dropCommon_split [OF dc] obtain c where c: "?W = c @ up" "posixResolve wd p = c @ down"
    by blast
  have W: "?W = normalizeAbs [] (splitOn slash wd)"
    by (simp add: posixResolve_def)
  have down: "\<forall>s \<in> set down. cleanSegment s \<and> slash \<notin> set s"
    using posixResolve_clean [of wd p] c(2) by simp
  show ?thesis
  proof (cases "?segs = []")
    case True
    then have "up = []" "down = []"
      by simp_all
    with c True show ?thesis
      by simp
  next
    case False
    have free: "\<forall>s \<in> set ?segs. s \<noteq> [] \<and> slash \<notin> set s"
    proof
      fix s
      assume "s \<in> set ?segs"
      then have "s = js ''..'' \<or> s \<in> set down"
        by auto
      then show "s \<noteq> [] \<and> slash \<notin> set s"
        using down dotdot_facts by (auto simp add: cleanSegment_def)
    qed
    from joinWith_starts [OF False free] obtain x xs
      where j: "joinWith slash ?segs = x # xs" "x \<noteq> slash"
      by blast
    have "posixResolve wd (joinWith slash ?segs) =
            normalizeAbs [] (splitOn slash (wd @ slash # joinWith slash ?segs))"
      using j by (simp add: posixResolve_def)
    also have "\<dots> = normalizeAbs [] (splitOn slash wd @ ?segs)"
      using free by (simp add: splitOn_append splitOn_joinWith [OF False])
    also have "\<dots> = normalizeAbs (rev ?W) ?segs"
      by (simp add: normalizeAbs_append W)
    also have "\<dots> = normalizeAbs (drop (length up) (rev ?W)) down"
      by (rule normalizeAbs_dotdots)
    also have "\<dots> = rev (drop (length up) (rev ?W)) @ down"
      using down by (simp add: normalizeAbs_clean)
    also have "\<dots> = c @ down"
      by (simp add: c(1))
    finally show ?thesis
      by (simp add: c(2))
  qed
qed

lemma posixRelative_fixed:
  assumes "posixResolve wd r = posixResolve wd []"
  shows "posixRelative wd r (posixRelative wd r p) = posixRelative wd r p"
proof -
  obtain up down where dc: "dropCommon (posixResolve wd []) (posixResolve wd p) = (up, down)"
    by (cases "dropCommon (posixResolve wd []) (posixResolve wd p)")
  let ?rel = "joinWith slash (replicate (length up) (js ''..'') @ down)"
  have rel: "posixRelative wd r p = ?rel"
    by (simp add: posixRelative_def assms dc)
  have "posixRelative wd r ?rel =
          (case dropCommon (posixResolve wd []) (posixResolve wd ?rel) of
             (up, down) \<Rightarrow> joinWith slash (replicate (length up) (js ''..'') @ down))"
    unfolding posixRelative_def assms ..
  also have "\<dots> = ?rel"
    unfolding resolve_relative_back [OF dc] dc by simp
  finally show ?thesis
    unfolding rel .
qed

lemma mixedPath_relative:
  "toWorkspaceRelativePath (posixRelative (js ''/ws'')) mixedPath (js ''/ws'') = js ''a/../b''"
  by (simp add: toWorkspaceRelativePath_def posixRelative_def posixResolve_def mixedPath_def js_def
        code_units)

lemma mixedPath_relative_again:
  "toWorkspaceRelativePath (posixRelative (js ''/ws'')) (js ''a/../b'') (js ''/ws'') = js ''b''"
  by (simp add: toWorkspaceRelativePath_def posixRelative_def posixResolve_def js_def code_units)

text \<open>
  The claim C8 fails: on POSIX, with the workspace root \<open>/ws\<close> as working directory,
  \<open>/ws/a\..\b\<close> gives \<open>a/../b\<close>, and \<open>a/../b\<close> gives \<open>b\<close>.
\<close>

theorem not_idempotent_counterexample:
  "toWorkspaceRelativePath (posixRelative (js ''/ws'')) mixedPath (js ''/ws'') = js ''a/../b''
   \<and> toWorkspaceRelativePath (posixRelative (js ''/ws''))
       (toWorkspaceRelativePath (posixRelative (js ''/ws'')) mixedPath (js ''/ws'')) (js ''/ws'') = js ''b''
   \<and> toWorkspaceRelativePath (posixRelative (js ''/ws''))
       (toWorkspaceRelativePath (posixRelative (js ''/ws'')) mixedPath (js ''/ws'')) (js ''/ws'')
      \<noteq> toWorkspaceRelativePath (posixRelative (js ''/ws'')) mixedPath (js ''/ws'')"
  by (simp add: mixedPath_relative mixedPath_relative_again) (simp add: js_def)

text \<open>
  C8, amended. For every \<open>path.relative\<close>, path and root the result contains no backslash,
  and it is the relative path itself when that has none. Applying the function to its
  own result gives that result again whenever \<open>path.relative\<close> maps the result to itself;
  on POSIX this is so when the root resolves to the working directory and the relative
  path has no backslash.
\<close>

theorem toWorkspaceRelativePath_forward_slashes:
  "backslash \<notin> set (toWorkspaceRelativePath relative absolutePath workspaceRoot)
   \<and> (backslash \<notin> set (relative workspaceRoot absolutePath) \<longrightarrow>
        toWorkspaceRelativePath relative absolutePath workspaceRoot = relative workspaceRoot absolutePath)
   \<and> (relative workspaceRoot (toWorkspaceRelativePath relative absolutePath workspaceRoot) =
         toWorkspaceRelativePath relative absolutePath workspaceRoot \<longrightarrow>
        toWorkspaceRelativePath relative (toWorkspaceRelativePath relative absolutePath workspaceRoot)
          workspaceRoot =
        toWorkspaceRelativePath relative absolutePath workspaceRoot)
   \<and> (posixResolve wd workspaceRoot = posixResolve wd []
       \<and> backslash \<notin> set (posixRelative wd workspaceRoot absolutePath) \<longrightarrow>
        toWorkspaceRelativePath (posixRelative wd)
          (toWorkspaceRelativePath (posixRelative wd) absolutePath workspaceRoot) workspaceRoot =
        toWorkspaceRelativePath (posixRelative wd) absolutePath workspaceRoot)"
proof (intro conjI impI)
  show "backslash \<notin> set (toWorkspaceRelativePath relative absolutePath workspaceRoot)"
    by (auto simp add: toWorkspaceRelativePath_def Let_def code_units)
  show same: "toWorkspaceRelativePath f absolutePath workspaceRoot = f workspaceRoot absolutePath"
    if "backslash \<notin> set (f workspaceRoot absolutePath)" for f
    using that by (auto simp add: toWorkspaceRelativePath_def Let_def intro!: map_idI)
  show again: "toWorkspaceRelativePath f (toWorkspaceRelativePath f absolutePath workspaceRoot)
          workspaceRoot =
        toWorkspaceRelativePath f absolutePath workspaceRoot"
    if "f workspaceRoot (toWorkspaceRelativePath f absolutePath workspaceRoot) =
         toWorkspaceRelativePath f absolutePath workspaceRoot" for f
  proof -
    have "toWorkspaceRelativePath f (toWorkspaceRelativePath f absolutePath workspaceRoot)
            workspaceRoot =
          map (\<lambda>c. if c = backslash then slash else c)
            (toWorkspaceRelativePath f absolutePath workspaceRoot)"
      using that
      by (simp add: toWorkspaceRelativePath_def
            [of f "toWorkspaceRelativePath f absolutePath workspaceRoot"] Let_def)
    also have "\<dots> = toWorkspaceRelativePath f absolutePath workspaceRoot"
      by (simp add: toWorkspaceRelativePath_def Let_def code_units)
    finally show ?thesis .
  qed
  show "toWorkspaceRelativePath (posixRelative wd)
          (toWorkspaceRelativePath (posixRelative wd) absolutePath workspaceRoot) workspaceRoot =
        toWorkspaceRelativePath (posixRelative wd) absolutePath workspaceRoot"
    if h: "posixResolve wd workspaceRoot = posixResolve wd []
       \<and> backslash \<notin> set (posixRelative wd workspaceRoot absolutePath)"
  proof -
    from h have out: "toWorkspaceRelativePath (posixRelative wd) absolutePath workspaceRoot =
                        posixRelative wd workspaceRoot absolutePath"
      by (simp add: same)
    from h have "posixRelative wd workspaceRoot (posixRelative wd workspaceRoot absolutePath) =
                   posixRelative wd workspaceRoot absolutePath"
      by (simp add: posixRelative_fixed)
    then show ?thesis
      using again [of "posixRelative wd"] by (simp add: out)
  qed
qed

theorem toWorkspaceRelativePath_forward_slashes_witness:
  "toWorkspaceRelativePath (posixRelative (js ''/ws'')) windowsStylePath (js ''/ws'') = js ''src/module/File.cs''
   \<and> backslash \<notin> set (toWorkspaceRelativePath (posixRelative (js ''/ws'')) windowsStylePath (js ''/ws''))
   \<and> posixResolve (js ''/ws'') (js ''/ws'') = posixResolve (js ''/ws'') []
   \<and> backslash \<notin> set (posixRelative (js ''/ws'') (js ''/ws'') (js ''/ws/src/module/File.cs''))
   \<and> toWorkspaceRelativePath (posixRelative (js ''/ws''))
        (toWorkspaceRelativePath (posixRelative (js ''/ws'')) windowsStylePath (js ''/ws'')) (js ''/ws'') =
       js ''src/module/File.cs''
   \<and> toWorkspaceRelativePath (posixRelative (js ''/ws''))
        (toWorkspaceRelativePath (posixRelative (js ''/ws'')) (js ''/ws/src/module/File.cs'') (js ''/ws''))
        (js ''/ws'') =
       js ''src/module/File.cs''"
proof -
  have a: "toWorkspaceRelativePath (posixRelative (js ''/ws'')) windowsStylePath (js ''/ws'') =
             js ''src/module/File.cs''"
    by (simp add: toWorkspaceRelativePath_def posixRelative_def posixResolve_def windowsStylePath_def
          js_def code_units)
  have b: "posixRelative (js ''/ws'') (js ''/ws'') (js ''src/module/File.cs'') = js ''src/module/File.cs''"
    by (simp add: posixRelative_def posixResolve_def js_def code_units)
  have c: "posixRelative (js ''/ws'') (js ''/ws'') (js ''/ws/src/module/File.cs'') = js ''src/module/File.cs''"
    by (simp add: posixRelative_def posixResolve_def js_def code_units)
  have d: "posixResolve (js ''/ws'') (js ''/ws'') = posixResolve (js ''/ws'') []"
    by (simp add: posixResolve_def js_def code_units)
  have e: "backslash \<notin> set (js ''src/module/File.cs'')"
    by (simp add: js_def code_units)
  from toWorkspaceRelativePath_forward_slashes
         [of "posixRelative (js ''/ws'')" windowsStylePath "js ''/ws''" "js ''/ws''"]
       toWorkspaceRelativePath_forward_slashes
         [of "posixRelative (js ''/ws'')" "js ''/ws/src/module/File.cs''" "js ''/ws''" "js ''/ws''"]
  show ?thesis
    by (simp add: a b c d e)
qed

section \<open>Severity: icon and annotation level\<close>




end
